theory Spec2Isabelle
  imports Complex_Main "HOL-Library.Log_Nat"
begin

section \<open>The JavaScript runtime the program relies on\<close>

text \<open>
  The parser (\<open>lib/email-parser.ts\<close>) and the orchestrator (\<open>cron-service.ts\<close>) are
  TypeScript. Everything they take from the language runtime is written out here:
  strings, regular expressions with backtracking, number conversions and \<open>Date\<close>.
  Strings are Isabelle strings, that is sequences of 8-bit code units; code units above
  255 are outside the embedding.
\<close>

subsection \<open>Characters and strings\<close>

definition charCode :: "char \<Rightarrow> nat" where
  "charCode c = of_char c"

definition isDigit :: "char \<Rightarrow> bool" where
  "isDigit c = (48 \<le> charCode c \<and> charCode c \<le> 57)"

definition isUpperAZ :: "char \<Rightarrow> bool" where
  "isUpperAZ c = (65 \<le> charCode c \<and> charCode c \<le> 90)"

definition isLowerAZ :: "char \<Rightarrow> bool" where
  "isLowerAZ c = (97 \<le> charCode c \<and> charCode c \<le> 122)"

text \<open>White space and line terminators of ECMAScript below 256: TAB, LF, VT, FF, CR, SP, NBSP.\<close>

definition isSpace :: "char \<Rightarrow> bool" where
  "isSpace c = (charCode c \<in> {9, 10, 11, 12, 13, 32, 160})"

definition isWordChar :: "char \<Rightarrow> bool" where
  "isWordChar c = (isDigit c \<or> isUpperAZ c \<or> isLowerAZ c \<or> c = CHR ''_'')"

definition toLowerChar :: "char \<Rightarrow> char" where
  "toLowerChar c =
     (if isUpperAZ c \<or> (192 \<le> charCode c \<and> charCode c \<le> 222 \<and> charCode c \<noteq> 215)
      then char_of (charCode c + 32) else c)"

definition toUpperChar :: "char \<Rightarrow> char" where
  "toUpperChar c =
     (if isLowerAZ c \<or> (224 \<le> charCode c \<and> charCode c \<le> 254 \<and> charCode c \<noteq> 247)
      then char_of (charCode c - 32) else c)"

definition toLowerCase :: "string \<Rightarrow> string" where
  "toLowerCase s = map toLowerChar s"

fun isPrefixOf :: "string \<Rightarrow> string \<Rightarrow> bool" where
  "isPrefixOf [] s = True"
| "isPrefixOf (a # as) [] = False"
| "isPrefixOf (a # as) (b # bs) = (a = b \<and> isPrefixOf as bs)"

text \<open>\<open>s.includes(p)\<close>.\<close>

fun includes_str :: "string \<Rightarrow> string \<Rightarrow> bool" where
  "includes_str [] p = (p = [])"
| "includes_str (a # as) p = (isPrefixOf p (a # as) \<or> includes_str as p)"

definition trim :: "string \<Rightarrow> string" where
  "trim s = rev (dropWhile isSpace (rev (dropWhile isSpace s)))"

text \<open>\<open>s.replace(/\s+/g, ' ')\<close>: every maximal run of white space becomes one space.\<close>

fun collapse_ws :: "string \<Rightarrow> string" where
  "collapse_ws [] = []"
| "collapse_ws [a] = [if isSpace a then CHR '' '' else a]"
| "collapse_ws (a # b # bs) =
     (if isSpace a then (if isSpace b then collapse_ws (b # bs) else CHR '' '' # collapse_ws (b # bs))
      else a # collapse_ws (b # bs))"

text \<open>\<open>s.substring(0, n)\<close>.\<close>

definition substring0 :: "nat \<Rightarrow> string \<Rightarrow> string" where
  "substring0 n s = take n s"

text \<open>\<open>s.split(sep)\<close> for a separator that matches exactly one character.\<close>

fun split_on :: "(char \<Rightarrow> bool) \<Rightarrow> string \<Rightarrow> string list" where
  "split_on p [] = [[]]"
| "split_on p (a # as) =
     (if p a then [] # split_on p as
      else (case split_on p as of [] \<Rightarrow> [[a]] | w # ws \<Rightarrow> (a # w) # ws))"

text \<open>\<open>s.replace(c, '')\<close> with a string pattern: only the first occurrence goes.\<close>

fun remove_first :: "char \<Rightarrow> string \<Rightarrow> string" where
  "remove_first c [] = []"
| "remove_first c (a # as) = (if a = c then as else a # remove_first c as)"

text \<open>\<open>s.replace(/,/g, '')\<close>.\<close>

definition remove_commas :: "string \<Rightarrow> string" where
  "remove_commas s = filter (\<lambda>c. c \<noteq> CHR '','') s"

text \<open>Indexing an array: out of range is \<open>undefined\<close>, here \<open>None\<close>.\<close>

definition at_index :: "'a list \<Rightarrow> nat \<Rightarrow> 'a option" where
  "at_index xs i = (if i < length xs then Some (xs ! i) else None)"

text \<open>A string that may be \<open>undefined\<close> or \<open>null\<close>, read where only its truthiness and
  its text matter: both absent and empty are falsy.\<close>

definition text_or_empty :: "string option \<Rightarrow> string" where
  "text_or_empty so = (case so of None \<Rightarrow> '''' | Some s \<Rightarrow> s)"

subsection \<open>Numbers\<close>

definition digit_val :: "char \<Rightarrow> nat" where
  "digit_val c = charCode c - 48"

definition digits_val :: "string \<Rightarrow> nat" where
  "digits_val ds = foldl (\<lambda>n c. 10 * n + digit_val c) 0 ds"

fun nat_to_str :: "nat \<Rightarrow> string" where
  "nat_to_str n =
     (if n < 10 then [char_of (48 + n)]
      else nat_to_str (n div 10) @ [char_of (48 + n mod 10)])"

declare nat_to_str.simps [simp del]

text \<open>Integer-valued numbers; \<open>None\<close> is NaN.\<close>

type_synonym jsint = "int option"

text \<open>\<open>String(v)\<close> and template interpolation of an integer-valued number.\<close>

definition String_of :: "jsint \<Rightarrow> string" where
  "String_of v =
     (case v of
        None \<Rightarrow> ''NaN''
      | Some i \<Rightarrow> if i < 0 then CHR ''-'' # nat_to_str (nat (- i)) else nat_to_str (nat i))"

definition padStart :: "nat \<Rightarrow> char \<Rightarrow> string \<Rightarrow> string" where
  "padStart n c s = replicate (n - length s) c @ s"

text \<open>\<open>parseInt(s, 10)\<close>: leading white space, an optional sign, then the longest run of
  decimal digits; NaN without a digit, and for \<open>undefined\<close>.\<close>

definition parseInt :: "string option \<Rightarrow> jsint" where
  "parseInt so =
     (case so of
        None \<Rightarrow> None
      | Some s \<Rightarrow>
          (let t = dropWhile isSpace s;
               neg = (case t of [] \<Rightarrow> False | a # _ \<Rightarrow> a = CHR ''-'');
               u = (case t of [] \<Rightarrow> [] | a # r \<Rightarrow> if a = CHR ''-'' \<or> a = CHR ''+'' then r else t);
               ds = takeWhile isDigit u
           in if ds = [] then None
              else Some (if neg then - int (digits_val ds) else int (digits_val ds))))"

text \<open>
  Numbers that are not integers: amounts and balances. A number is NaN, an infinity, or a
  finite binary64 double, kept as the rational it denotes. \<open>to_binary64 a b\<close> is the
  double nearest to \<open>a / b\<close>, ties to the even significand: the value is scaled by the
  power of two of its binade (of the subnormals below \<open>2 powi -1022\<close>), rounded to an
  integer significand, and is infinite from \<open>2 ^ 1024\<close> on.
\<close>

datatype jsnum = NaN | Infinity | Num rat

definition ilog2 :: "nat \<Rightarrow> nat \<Rightarrow> int" where
  "ilog2 a b =
     (let d = int (floorlog 2 a) - int (floorlog 2 b)
      in if (2::rat) powi d \<le> of_nat a / of_nat b then d else d - 1)"

definition round_half_even :: "rat \<Rightarrow> int" where
  "round_half_even m =
     (let f = \<lfloor>m\<rfloor>
      in if m - of_int f < 1 / 2 then f
         else if 1 / 2 < m - of_int f then f + 1
         else if even f then f else f + 1)"

definition to_binary64 :: "nat \<Rightarrow> nat \<Rightarrow> jsnum" where
  "to_binary64 a b =
     (if a = 0 then Num 0
      else
        (let e = max (ilog2 a b) (- 1022);
             q = (2::rat) powi (e - 52);
             r = of_int (round_half_even (of_nat a / of_nat b / q)) * q
         in if 2 ^ 1024 \<le> r then Infinity else Num r))"

text \<open>\<open>parseFloat\<close> is only ever applied to text that the amount and balance patterns
  captured, with the commas removed: decimal digits with at most one dot, no sign and no
  exponent. Without a digit the result is NaN.\<close>

definition parseFloat :: "string \<Rightarrow> jsnum" where
  "parseFloat s =
     (let t = dropWhile isSpace s;
          ip = takeWhile isDigit t;
          r = dropWhile isDigit t;
          fp = (case r of [] \<Rightarrow> [] | a # r' \<Rightarrow> if a = CHR ''.'' then takeWhile isDigit r' else [])
      in if ip = [] \<and> fp = [] then NaN
         else to_binary64 (digits_val (ip @ fp)) (10 ^ length fp))"

text \<open>\<open>!v\<close> for a number.\<close>

definition falsy_num :: "jsnum \<Rightarrow> bool" where
  "falsy_num v = (v = NaN \<or> v = Num 0)"

subsection \<open>Regular expressions\<close>

text \<open>
  Patterns are syntax trees; matching is the backtracking matcher of the ECMAScript
  specification in continuation-passing style: a matcher takes the state (the rest of
  the input and the captures so far) and a continuation, and returns the first success
  in priority order. The constructs are the ones the patterns of the parser use.
\<close>

datatype citem = Lit char | Range char char | Digit | Space | WordCh

datatype atom = Is citem | OneOf "citem list" | NoneOf "citem list"

datatype re =
    Atom atom
  | Eps
  | AtEnd
  | Cat re re
  | Alt re re
  | Rep nat "nat option" bool re
  | Cap nat re

fun item_has :: "citem \<Rightarrow> char \<Rightarrow> bool" where
  "item_has (Lit a) c = (a = c)"
| "item_has (Range a b) c = (charCode a \<le> charCode c \<and> charCode c \<le> charCode b)"
| "item_has Digit c = isDigit c"
| "item_has Space c = isSpace c"
| "item_has WordCh c = isWordChar c"

text \<open>With the \<open>i\<close> flag a character matches an item when one of its case variants is in it.\<close>

definition item_match :: "bool \<Rightarrow> citem \<Rightarrow> char \<Rightarrow> bool" where
  "item_match ic i c =
     (item_has i c \<or> (ic \<and> (item_has i (toUpperChar c) \<or> item_has i (toLowerChar c))))"

fun atom_match :: "bool \<Rightarrow> atom \<Rightarrow> char \<Rightarrow> bool" where
  "atom_match ic (Is i) c = item_match ic i c"
| "atom_match ic (OneOf is) c = (\<exists>i \<in> set is. item_match ic i c)"
| "atom_match ic (NoneOf is) c = (\<not> (\<exists>i \<in> set is. item_match ic i c))"

type_synonym captures = "nat \<rightharpoonup> string"
type_synonym mstate = "string \<times> captures"
type_synonym cont = "mstate \<Rightarrow> mstate option"

text \<open>
  The quantifier \<open>{mn,mx}\<close>, greedy or lazy (RepeatMatcher). Once the minimum is reached
  an iteration that consumes nothing is rejected. The first argument bounds the number of
  iterations; \<open>re_m\<close> starts it at the length of the input plus the minimum plus one:
  the iterations below the minimum are \<open>mn\<close>, and each later one consumes at least
  one character.
\<close>

definition dec_max :: "nat option \<Rightarrow> nat option" where
  "dec_max mx = map_option (\<lambda>k. k - 1) mx"

fun rep_iter :: "nat \<Rightarrow> (mstate \<Rightarrow> cont \<Rightarrow> mstate option) \<Rightarrow> nat \<Rightarrow> nat option \<Rightarrow> bool
                 \<Rightarrow> mstate \<Rightarrow> cont \<Rightarrow> mstate option" where
  "rep_iter 0 m mn mx g x c = None"
| "rep_iter (Suc n) m mn mx g x c =
     (if mx = Some 0 then c x
      else if mn \<noteq> 0 then
        m x (\<lambda>y. rep_iter n m (mn - 1) (dec_max mx) g y c)
      else if \<not> g then
        (case c x of
           Some z \<Rightarrow> Some z
         | None \<Rightarrow> m x (\<lambda>y. if length (fst y) = length (fst x) then None
                             else rep_iter n m 0 (dec_max mx) g y c))
      else
        (case m x (\<lambda>y. if length (fst y) = length (fst x) then None
                        else rep_iter n m 0 (dec_max mx) g y c) of
           Some z \<Rightarrow> Some z
         | None \<Rightarrow> c x))"

primrec re_m :: "re \<Rightarrow> bool \<Rightarrow> mstate \<Rightarrow> cont \<Rightarrow> mstate option" where
  "re_m (Atom a) ic x c =
     (case fst x of
        [] \<Rightarrow> None
      | ch # rest \<Rightarrow> if atom_match ic a ch then c (rest, snd x) else None)"
| "re_m Eps ic x c = c x"
| "re_m AtEnd ic x c = (if fst x = [] then c x else None)"
| "re_m (Cat r1 r2) ic x c = re_m r1 ic x (\<lambda>y. re_m r2 ic y c)"
| "re_m (Alt r1 r2) ic x c =
     (case re_m r1 ic x c of Some z \<Rightarrow> Some z | None \<Rightarrow> re_m r2 ic x c)"
| "re_m (Rep mn mx g r) ic x c =
     rep_iter (Suc (length (fst x) + mn)) (re_m r ic) mn mx g x c"
| "re_m (Cap k r) ic x c =
     re_m r ic x
       (\<lambda>y. c (fst y, (snd y)(k \<mapsto> take (length (fst x) - length (fst y)) (fst x))))"

text \<open>
  \<open>s.match(r)\<close> for a pattern without the \<open>g\<close> flag: the match is tried at each
  start position from the left; the result is the matched text and the captures
  (an unset group is \<open>undefined\<close>, here \<open>None\<close>), or \<open>null\<close>, here \<open>None\<close>.
\<close>

fun exec :: "re \<Rightarrow> bool \<Rightarrow> string \<Rightarrow> (string \<times> captures) option" where
  "exec r ic [] =
     (case re_m r ic ([], Map.empty) Some of
        Some y \<Rightarrow> Some ([], snd y)
      | None \<Rightarrow> None)"
| "exec r ic (ch # s) =
     (case re_m r ic (ch # s, Map.empty) Some of
        Some y \<Rightarrow> Some (take (length (ch # s) - length (fst y)) (ch # s), snd y)
      | None \<Rightarrow> exec r ic s)"

definition match_group :: "string \<times> captures \<Rightarrow> nat \<Rightarrow> string option" where
  "match_group m k = snd m k"

text \<open>Notation for writing the patterns down.\<close>

definition re_cls :: "citem \<Rightarrow> re" where
  "re_cls i = Atom (Is i)"

definition re_chr :: "char \<Rightarrow> re" where
  "re_chr a = Atom (Is (Lit a))"

primrec re_str :: "string \<Rightarrow> re" where
  "re_str [] = Eps"
| "re_str (a # as) = (if as = [] then re_chr a else Cat (re_chr a) (re_str as))"

primrec re_seq :: "re list \<Rightarrow> re" where
  "re_seq [] = Eps"
| "re_seq (r # rs) = (if rs = [] then r else Cat r (re_seq rs))"

primrec re_alts :: "re list \<Rightarrow> re" where
  "re_alts [] = Eps"
| "re_alts (r # rs) = (if rs = [] then r else Alt r (re_alts rs))"

definition re_opt :: "re \<Rightarrow> re" where
  "re_opt r = Rep 0 (Some 1) True r"

definition re_star :: "re \<Rightarrow> re" where
  "re_star r = Rep 0 None True r"

definition re_plus :: "re \<Rightarrow> re" where
  "re_plus r = Rep 1 None True r"

definition re_plus_lazy :: "re \<Rightarrow> re" where
  "re_plus_lazy r = Rep 1 None False r"

definition re_times :: "nat \<Rightarrow> nat \<Rightarrow> re \<Rightarrow> re" where
  "re_times a b r = Rep a (Some b) True r"

definition re_digit :: re where
  "re_digit = re_cls Digit"

definition re_space :: re where
  "re_space = re_cls Space"

subsection \<open>Date\<close>

text \<open>
  A \<open>Date\<close> holds a time value, milliseconds since the epoch in UTC, or NaN (an invalid
  date). The calendar arithmetic is the one of the ECMAScript specification. What the
  specification leaves to the implementation is a parameter: the offset of the zone of the
  process (\<open>LocalTZA rt t True\<close> is the offset at the UTC time value \<open>t\<close>,
  \<open>LocalTZA rt t False\<close> the offset for the local time value \<open>t\<close>), parsing a date
  from free text (\<open>new Date(string)\<close>) and \<open>date.toString()\<close>.
\<close>

datatype Date = InvalidDate | Time int

record Runtime =
  LocalTZA :: "int \<Rightarrow> bool \<Rightarrow> int"
  DateParse :: "string \<Rightarrow> Date"
  DateToString :: "Date \<Rightarrow> string"

definition msPerDay :: int where
  "msPerDay = 86400000"

definition TimeClip :: "int \<Rightarrow> Date" where
  "TimeClip t = (if \<bar>t\<bar> \<le> 8640000000000000 then Time t else InvalidDate)"

definition Day :: "int \<Rightarrow> int" where
  "Day t = t div msPerDay"

definition isLeapYear :: "int \<Rightarrow> bool" where
  "isLeapYear y = ((y mod 4 = 0 \<and> y mod 100 \<noteq> 0) \<or> y mod 400 = 0)"

definition DayFromYear :: "int \<Rightarrow> int" where
  "DayFromYear y = 365 * (y - 1970) + (y - 1969) div 4 - (y - 1901) div 100 + (y - 1601) div 400"

definition monthLengths :: "int \<Rightarrow> int list" where
  "monthLengths y = [31, if isLeapYear y then 29 else 28, 31, 30, 31, 30, 31, 31, 30, 31, 30, 31]"

text \<open>MakeDay: month numbers outside 0..11 carry into the year, day numbers outside the
  month carry into the neighbouring months.\<close>

definition MakeDay :: "int \<Rightarrow> int \<Rightarrow> int \<Rightarrow> int" where
  "MakeDay year month date =
     (let ym = year + month div 12; mn = nat (month mod 12)
      in DayFromYear ym + sum_list (take mn (monthLengths ym)) + date - 1)"

definition MakeTime :: "int \<Rightarrow> int \<Rightarrow> int \<Rightarrow> int \<Rightarrow> int" where
  "MakeTime h m s ms = h * 3600000 + m * 60000 + s * 1000 + ms"

definition MakeDate :: "int \<Rightarrow> int \<Rightarrow> int" where
  "MakeDate day time = day * msPerDay + time"

text \<open>
  Year, month (1..12) and day of the month of a day number. The day number is counted
  from 1 March of year 0, so that the leap day ends its year: 400 years are 146097 days,
  a century 36524 (the fourth one day more), four years 1461, a year 365.
\<close>

definition civil :: "int \<Rightarrow> int \<times> int \<times> int" where
  "civil day =
     (let z = day + 719468;
          era = z div 146097;
          doe = z mod 146097;
          c = min 3 (doe div 36524);
          d1 = doe - 36524 * c;
          q = min 24 (d1 div 1461);
          d2 = d1 - 1461 * q;
          a = min 3 (d2 div 365);
          doy = d2 - 365 * a;
          mp = (5 * doy + 2) div 153;
          d = doy - (153 * mp + 2) div 5 + 1;
          m = (if mp < 10 then mp + 3 else mp - 9);
          y = 400 * era + 100 * c + 4 * q + a + (if m \<le> 2 then 1 else 0)
      in (y, m, d))"

definition YearFromTime :: "int \<Rightarrow> int" where
  "YearFromTime t = fst (civil (Day t))"

definition MonthFromTime :: "int \<Rightarrow> int" where
  "MonthFromTime t = fst (snd (civil (Day t))) - 1"

definition DateFromTime :: "int \<Rightarrow> int" where
  "DateFromTime t = snd (snd (civil (Day t)))"

definition HourFromTime :: "int \<Rightarrow> int" where
  "HourFromTime t = (t div 3600000) mod 24"

definition MinFromTime :: "int \<Rightarrow> int" where
  "MinFromTime t = (t div 60000) mod 60"

definition msFromTime :: "int \<Rightarrow> int" where
  "msFromTime t = t mod 1000"

definition LocalTime :: "Runtime \<Rightarrow> int \<Rightarrow> int" where
  "LocalTime rt t = t + LocalTZA rt t True"

definition UTC :: "Runtime \<Rightarrow> int \<Rightarrow> int" where
  "UTC rt t = t - LocalTZA rt t False"

definition local_field :: "(int \<Rightarrow> int) \<Rightarrow> Runtime \<Rightarrow> Date \<Rightarrow> jsint" where
  "local_field f rt d = (case d of InvalidDate \<Rightarrow> None | Time t \<Rightarrow> Some (f (LocalTime rt t)))"

definition getDate :: "Runtime \<Rightarrow> Date \<Rightarrow> jsint" where
  "getDate = local_field DateFromTime"

definition getMonth :: "Runtime \<Rightarrow> Date \<Rightarrow> jsint" where
  "getMonth = local_field MonthFromTime"

definition getFullYear :: "Runtime \<Rightarrow> Date \<Rightarrow> jsint" where
  "getFullYear = local_field YearFromTime"

definition getHours :: "Runtime \<Rightarrow> Date \<Rightarrow> jsint" where
  "getHours = local_field HourFromTime"

definition getMinutes :: "Runtime \<Rightarrow> Date \<Rightarrow> jsint" where
  "getMinutes = local_field MinFromTime"

text \<open>\<open>new Date(year, month, day)\<close>: local midnight; a year 0..99 means 1900 + year.\<close>

definition newDate :: "Runtime \<Rightarrow> jsint \<Rightarrow> jsint \<Rightarrow> jsint \<Rightarrow> Date" where
  "newDate rt year month day =
     (case (year, month, day) of
        (Some y, Some m, Some d) \<Rightarrow>
          (let yr = (if 0 \<le> y \<and> y \<le> 99 then 1900 + y else y)
           in TimeClip (UTC rt (MakeDate (MakeDay yr m d) (MakeTime 0 0 0 0))))
      | _ \<Rightarrow> InvalidDate)"

text \<open>\<open>date.setHours(hour, minute, sec)\<close>: the local day and the milliseconds are kept.\<close>

definition setHours :: "Runtime \<Rightarrow> Date \<Rightarrow> jsint \<Rightarrow> jsint \<Rightarrow> jsint \<Rightarrow> Date" where
  "setHours rt date hour minute sec =
     (case date of
        InvalidDate \<Rightarrow> InvalidDate
      | Time t0 \<Rightarrow>
          (case (hour, minute, sec) of
             (Some h, Some m, Some s) \<Rightarrow>
               (let t = LocalTime rt t0
                in TimeClip (UTC rt (MakeDate (Day t) (MakeTime h m s (msFromTime t)))))
           | _ \<Rightarrow> InvalidDate))"

text \<open>\<open>a > b\<close> on dates compares the time values; with NaN on either side it is false.\<close>

definition date_gt :: "Date \<Rightarrow> Date \<Rightarrow> bool" where
  "date_gt a b = (case (a, b) of (Time x, Time y) \<Rightarrow> x > y | _ \<Rightarrow> False)"

text \<open>
  \<open>date.toISOString()\<close> raises RangeError on an invalid date (\<open>None\<close>). The ISO-8601 text
  of a valid date determines its time value and is determined by it, so wherever the
  program stores or compares that text the embedding keeps the time value.
\<close>

definition toISOString :: "Date \<Rightarrow> int option" where
  "toISOString d = (case d of InvalidDate \<Rightarrow> None | Time t \<Rightarrow> Some t)"

section \<open>The email parser\<close>

subsection \<open>Data (\<open>ParsedTransaction\<close>, \<open>ParseResult\<close>)\<close>

datatype txn_type = Credit | Debit

definition type_text :: "txn_type \<Rightarrow> string" where
  "type_text t = (case t of Credit \<Rightarrow> ''Credit'' | Debit \<Rightarrow> ''Debit'')"

text \<open>\<open>availableBalance: number | string\<close>; the only string ever stored is \<open>'N/A'\<close>.\<close>

datatype balance = NA | Balance jsnum

record ParsedTransaction =
  dateTime :: string
  amount :: jsnum
  type :: txn_type
  "method" :: string
  account :: string
  description :: string
  referenceNumber :: string
  availableBalance :: balance
  category :: string
  "notes" :: string
  emailReceivedDate :: string

text \<open>The field \<open>from\<close> of \<open>emailData\<close> is called \<open>sender\<close> here.\<close>

record EmailData =
  email_id :: string
  subject :: string
  body_snippet :: string
  received_date :: string
  sender :: string

record ParseResult =
  success :: bool
  transaction :: "ParsedTransaction option"
  error :: "string option"
  emailData :: "EmailData option"

subsection \<open>\<open>PATTERNS\<close>\<close>

text \<open>\<open>/(?:Rs\.?|INR)\s*([\d,]+\.?\d*)/i\<close>\<close>

definition PATTERNS_amount :: re where
  "PATTERNS_amount =
     re_seq [re_alts [re_seq [re_str ''Rs'', re_opt (re_chr CHR ''.'')], re_str ''INR''],
             re_star re_space,
             Cap 1 (re_seq [re_plus (Atom (OneOf [Digit, Lit CHR '',''])),
                            re_opt (re_chr CHR ''.''), re_star re_digit])]"

text \<open>\<open>/(credited|debited)/i\<close>\<close>

definition PATTERNS_type :: re where
  "PATTERNS_type = Cap 1 (re_alts [re_str ''credited'', re_str ''debited''])"

text \<open>\<open>/(?:account\s*\*{0,2}|XX|ending\s*)(\d{4})/i\<close>\<close>

definition PATTERNS_account :: re where
  "PATTERNS_account =
     re_seq [re_alts [re_seq [re_str ''account'', re_star re_space, re_times 0 2 (re_chr CHR ''*'')],
                      re_str ''XX'',
                      re_seq [re_str ''ending'', re_star re_space]],
             Cap 1 (re_times 4 4 re_digit)]"

text \<open>\<open>/(\d{2}[-/]\d{2}[-/]\d{2,4}|\d{1,2}\s+[A-Za-z]{3},?\s+\d{4})/\<close>\<close>

definition PATTERNS_date :: re where
  "PATTERNS_date =
     Cap 1 (re_alts [
       re_seq [re_times 2 2 re_digit, Atom (OneOf [Lit CHR ''-'', Lit CHR ''/'']),
               re_times 2 2 re_digit, Atom (OneOf [Lit CHR ''-'', Lit CHR ''/'']),
               re_times 2 4 re_digit],
       re_seq [re_times 1 2 re_digit, re_plus re_space,
               re_times 3 3 (Atom (OneOf [Range CHR ''A'' CHR ''Z'', Range CHR ''a'' CHR ''z''])),
               re_opt (re_chr CHR '',''), re_plus re_space, re_times 4 4 re_digit]])"

text \<open>\<open>/at\s+(\d{2}:\d{2}(?::\d{2})?)/\<close>\<close>

definition PATTERNS_time :: re where
  "PATTERNS_time =
     re_seq [re_str ''at'', re_plus re_space,
             Cap 1 (re_seq [re_times 2 2 re_digit, re_chr CHR '':'', re_times 2 2 re_digit,
                            re_opt (re_seq [re_chr CHR '':'', re_times 2 2 re_digit])])]"

text \<open>\<open>/(UPI|Debit Card|Credit Card|Cash Deposit(?:\s+Machine)?|Net Banking|NEFT|IMPS|RTGS)/i\<close>\<close>

definition PATTERNS_method :: re where
  "PATTERNS_method =
     Cap 1 (re_alts [re_str ''UPI'', re_str ''Debit Card'', re_str ''Credit Card'',
                     re_seq [re_str ''Cash Deposit'',
                             re_opt (re_seq [re_plus re_space, re_str ''Machine''])],
                     re_str ''Net Banking'', re_str ''NEFT'', re_str ''IMPS'', re_str ''RTGS''])"

text \<open>\<open>/(?:reference number is|ref(?:erence)?\.?\s*(?:no|number)?\.?\s*(?:is)?)\s*:?\s*(\w+)/i\<close>\<close>

definition PATTERNS_referenceNumber :: re where
  "PATTERNS_referenceNumber =
     re_seq [re_alts [re_str ''reference number is'',
                      re_seq [re_str ''ref'', re_opt (re_str ''erence''), re_opt (re_chr CHR ''.''),
                              re_star re_space, re_opt (re_alts [re_str ''no'', re_str ''number'']),
                              re_opt (re_chr CHR ''.''), re_star re_space, re_opt (re_str ''is'')]],
             re_star re_space, re_opt (re_chr CHR '':''), re_star re_space,
             Cap 1 (re_plus (re_cls WordCh))]"

text \<open>\<open>/(?:to|by)\s+VPA\s+([^\s]+@[^\s]+)\s+([A-Z][A-Za-z\s]+?)(?:\s+on|\s+Your|$)/i\<close>\<close>

definition PATTERNS_upiMerchant :: re where
  "PATTERNS_upiMerchant =
     re_seq [re_alts [re_str ''to'', re_str ''by''], re_plus re_space, re_str ''VPA'',
             re_plus re_space,
             Cap 1 (re_seq [re_plus (Atom (NoneOf [Space])), re_chr CHR ''@'',
                            re_plus (Atom (NoneOf [Space]))]),
             re_plus re_space,
             Cap 2 (re_seq [re_cls (Range CHR ''A'' CHR ''Z''),
                            re_plus_lazy (Atom (OneOf [Range CHR ''A'' CHR ''Z'',
                                                       Range CHR ''a'' CHR ''z'', Space]))]),
             re_alts [re_seq [re_plus re_space, re_str ''on''],
                      re_seq [re_plus re_space, re_str ''Your''],
                      AtEnd]]"

text \<open>\<open>/at\s+([A-Z][A-Z0-9\s\-]+?)(?:\s+on|\s+at\s+\d)/i\<close>\<close>

definition PATTERNS_cardMerchant :: re where
  "PATTERNS_cardMerchant =
     re_seq [re_str ''at'', re_plus re_space,
             Cap 1 (re_seq [re_cls (Range CHR ''A'' CHR ''Z''),
                            re_plus_lazy (Atom (OneOf [Range CHR ''A'' CHR ''Z'',
                                                       Range CHR ''0'' CHR ''9'',
                                                       Space, Lit CHR ''-'']))]),
             re_alts [re_seq [re_plus re_space, re_str ''on''],
                      re_seq [re_plus re_space, re_str ''at'', re_plus re_space, re_digit]]]"

text \<open>\<open>/at\s+([A-Za-z\s\-]+)(?:\s+via)/i\<close>\<close>

definition PATTERNS_depositLocation :: re where
  "PATTERNS_depositLocation =
     re_seq [re_str ''at'', re_plus re_space,
             Cap 1 (re_plus (Atom (OneOf [Range CHR ''A'' CHR ''Z'', Range CHR ''a'' CHR ''z'',
                                          Space, Lit CHR ''-'']))),
             re_seq [re_plus re_space, re_str ''via'']]"

text \<open>\<open>/available balance (?:is\s+)?(?:INR|Rs\.?)\s*([\d,]+\.?\d*)/i\<close>\<close>

definition PATTERNS_balance :: re where
  "PATTERNS_balance =
     re_seq [re_str ''available balance '', re_opt (re_seq [re_str ''is'', re_plus re_space]),
             re_alts [re_str ''INR'', re_seq [re_str ''Rs'', re_opt (re_chr CHR ''.'')]],
             re_star re_space,
             Cap 1 (re_seq [re_plus (Atom (OneOf [Digit, Lit CHR '',''])),
                            re_opt (re_chr CHR ''.''), re_star re_digit])]"

subsection \<open>\<open>formatToIndianDateTime\<close> and \<open>parseEmailDate\<close>\<close>

definition formatToIndianDateTime :: "Runtime \<Rightarrow> Date \<Rightarrow> string" where
  "formatToIndianDateTime rt date =
     (let day = padStart 2 CHR ''0'' (String_of (getDate rt date));
          month = padStart 2 CHR ''0'' (String_of (map_option (\<lambda>m. m + 1) (getMonth rt date)));
          year = getFullYear rt date;
          hours = getHours rt date;
          minutes = padStart 2 CHR ''0'' (String_of (getMinutes rt date));
          ampm = (case hours of None \<Rightarrow> ''AM'' | Some h \<Rightarrow> if h \<ge> 12 then ''PM'' else ''AM'');
          hours' = (case hours of
                      None \<Rightarrow> Some 12
                    | Some h \<Rightarrow> if h mod 12 = 0 then Some 12 else Some (h mod 12))
      in day @ ''/'' @ month @ ''/'' @ String_of year @ '' '' @ String_of hours' @ '':'' @ minutes
           @ '' '' @ ampm)"

definition parseEmailDate :: "Runtime \<Rightarrow> string \<Rightarrow> string option \<Rightarrow> Date" where
  "parseEmailDate rt dateStr timeStr =
     (let parsedDate =
        (if CHR ''-'' \<in> set dateStr \<or> CHR ''/'' \<in> set dateStr then
           (let parts = split_on (\<lambda>c. c = CHR ''-'' \<or> c = CHR ''/'') dateStr;
                day = parseInt (at_index parts 0);
                month = map_option (\<lambda>m. m - 1) (parseInt (at_index parts 1));
                year = parseInt (at_index parts 2);
                year' = map_option (\<lambda>y. if y < 100 then 2000 + y else y) year
            in newDate rt year' month day)
         else DateParse rt (remove_first CHR '','' dateStr))
      in if text_or_empty timeStr = '''' then parsedDate
         else
           (let timeParts = split_on (\<lambda>c. c = CHR '':'') (text_or_empty timeStr)
            in setHours rt parsedDate
                 (parseInt (at_index timeParts 0))
                 (parseInt (at_index timeParts 1))
                 (if text_or_empty (at_index timeParts 2) = '''' then Some 0
                  else parseInt (at_index timeParts 2))))"

subsection \<open>\<open>parseHDFCEmail\<close>\<close>

text \<open>
  The body of the \<open>try\<close> block is a sequence of steps on the transaction under
  construction. A step raises (\<open>Inl\<close> with the message) where the source calls a method on
  a capture group that is \<open>undefined\<close>; \<open>catch\<close> turns that into a failure result.
\<close>

definition bind_thrown :: "string + 'a \<Rightarrow> ('a \<Rightarrow> string + 'b) \<Rightarrow> string + 'b" where
  "bind_thrown x f = (case x of Inl e \<Rightarrow> Inl e | Inr v \<Rightarrow> f v)"

definition deref :: "string option \<Rightarrow> string + string" where
  "deref g = (case g of None \<Rightarrow> Inl ''Cannot read properties of undefined'' | Some s \<Rightarrow> Inr s)"

definition initial_transaction :: "Runtime \<Rightarrow> Date \<Rightarrow> ParsedTransaction" where
  "initial_transaction rt receivedDate =
     \<lparr> dateTime = '''', amount = Num 0, type = Debit, method = ''Other'', account = '''',
       description = '''', referenceNumber = '''', availableBalance = NA, category = '''',
       notes = '''', emailReceivedDate = formatToIndianDateTime rt receivedDate \<rparr>"

definition set_amount :: "string \<Rightarrow> ParsedTransaction \<Rightarrow> string + ParsedTransaction" where
  "set_amount normalizedBody t =
     (case exec PATTERNS_amount True normalizedBody of
        None \<Rightarrow> Inr t
      | Some amountMatch \<Rightarrow>
          bind_thrown (deref (match_group amountMatch 1))
            (\<lambda>g. Inr (t\<lparr>amount := parseFloat (remove_commas g)\<rparr>)))"

definition set_type :: "string \<Rightarrow> ParsedTransaction \<Rightarrow> string + ParsedTransaction" where
  "set_type normalizedBody t =
     (case exec PATTERNS_type True normalizedBody of
        None \<Rightarrow> Inr t
      | Some typeMatch \<Rightarrow>
          bind_thrown (deref (match_group typeMatch 1))
            (\<lambda>g. Inr (t\<lparr>type := (if toLowerCase g = ''credited'' then Credit else Debit)\<rparr>)))"

definition set_account :: "string \<Rightarrow> ParsedTransaction \<Rightarrow> string + ParsedTransaction" where
  "set_account normalizedBody t =
     (case exec PATTERNS_account True normalizedBody of
        None \<Rightarrow> Inr t
      | Some accountMatch \<Rightarrow> Inr (t\<lparr>account := text_or_empty (match_group accountMatch 1)\<rparr>))"

definition set_dateTime :: "Runtime \<Rightarrow> string \<Rightarrow> ParsedTransaction \<Rightarrow> string + ParsedTransaction" where
  "set_dateTime rt normalizedBody t =
     (let dateMatch = exec PATTERNS_date False normalizedBody;
          timeMatch = exec PATTERNS_time False normalizedBody
      in case dateMatch of
           Some dm \<Rightarrow>
             bind_thrown (deref (match_group dm 1))
               (\<lambda>g. Inr (t\<lparr>dateTime := formatToIndianDateTime rt
                        (parseEmailDate rt g
                           (case timeMatch of None \<Rightarrow> None | Some tm \<Rightarrow> match_group tm 1))\<rparr>))
         | None \<Rightarrow> Inr (t\<lparr>dateTime := emailReceivedDate t\<rparr>))"

definition set_method :: "string \<Rightarrow> ParsedTransaction \<Rightarrow> string + ParsedTransaction" where
  "set_method normalizedBody t =
     (case exec PATTERNS_method True normalizedBody of
        Some methodMatch \<Rightarrow>
          bind_thrown (deref (match_group methodMatch 1))
            (\<lambda>g. Inr (t\<lparr>method := (if includes_str (toLowerCase g) ''cash deposit''
                                      then ''Cash Deposit'' else g)\<rparr>))
      | None \<Rightarrow>
          if includes_str (toLowerCase normalizedBody) ''upi'' then Inr (t\<lparr>method := ''UPI''\<rparr>)
          else Inr t)"

definition set_referenceNumber :: "string \<Rightarrow> ParsedTransaction \<Rightarrow> string + ParsedTransaction" where
  "set_referenceNumber normalizedBody t =
     (case exec PATTERNS_referenceNumber True normalizedBody of
        None \<Rightarrow> Inr t
      | Some refMatch \<Rightarrow> Inr (t\<lparr>referenceNumber := text_or_empty (match_group refMatch 1)\<rparr>))"

definition set_description :: "string \<Rightarrow> string \<Rightarrow> ParsedTransaction \<Rightarrow> string + ParsedTransaction" where
  "set_description normalizedBody emailSubject t =
     bind_thrown
       (if method t = ''UPI'' then
          (case exec PATTERNS_upiMerchant True normalizedBody of
             None \<Rightarrow> Inr t
           | Some upiMatch \<Rightarrow>
               bind_thrown (deref (match_group upiMatch 2))
                 (\<lambda>g2. Inr (t\<lparr>description :=
                      trim g2 @ '' ('' @
                      (case match_group upiMatch 1 of None \<Rightarrow> ''undefined'' | Some g1 \<Rightarrow> g1) @
                      '')''\<rparr>)))
        else if method t = ''Debit Card'' \<or> method t = ''Credit Card'' then
          (case exec PATTERNS_cardMerchant True normalizedBody of
             None \<Rightarrow> Inr t
           | Some cardMatch \<Rightarrow>
               bind_thrown (deref (match_group cardMatch 1)) (\<lambda>g. Inr (t\<lparr>description := trim g\<rparr>)))
        else if method t = ''Cash Deposit'' then
          (case exec PATTERNS_depositLocation True normalizedBody of
             None \<Rightarrow> Inr t
           | Some depositMatch \<Rightarrow>
               bind_thrown (deref (match_group depositMatch 1))
                 (\<lambda>g. Inr (t\<lparr>description := ''Cash Deposit at '' @ trim g\<rparr>)))
        else Inr t)
       (\<lambda>t'. if description t' = '''' \<and> emailSubject \<noteq> ''''
             then Inr (t'\<lparr>description := substring0 50 emailSubject\<rparr>)
             else Inr t')"

definition set_availableBalance :: "string \<Rightarrow> ParsedTransaction \<Rightarrow> string + ParsedTransaction" where
  "set_availableBalance normalizedBody t =
     (case exec PATTERNS_balance True normalizedBody of
        None \<Rightarrow> Inr t
      | Some balanceMatch \<Rightarrow>
          bind_thrown (deref (match_group balanceMatch 1))
            (\<lambda>g. Inr (t\<lparr>availableBalance := Balance (parseFloat (remove_commas g))\<rparr>)))"

definition normalize_body :: "string \<Rightarrow> string" where
  "normalize_body emailBody = trim (collapse_ws emailBody)"

definition extract_fields :: "Runtime \<Rightarrow> string \<Rightarrow> string \<Rightarrow> Date \<Rightarrow> string + ParsedTransaction" where
  "extract_fields rt emailBody emailSubject receivedDate =
     (let normalizedBody = normalize_body emailBody
      in bind_thrown (set_amount normalizedBody (initial_transaction rt receivedDate)) (\<lambda>t1.
         bind_thrown (set_type normalizedBody t1) (\<lambda>t2.
         bind_thrown (set_account normalizedBody t2) (\<lambda>t3.
         bind_thrown (set_dateTime rt normalizedBody t3) (\<lambda>t4.
         bind_thrown (set_method normalizedBody t4) (\<lambda>t5.
         bind_thrown (set_referenceNumber normalizedBody t5) (\<lambda>t6.
         bind_thrown (set_description normalizedBody emailSubject t6) (\<lambda>t7.
         set_availableBalance normalizedBody t7))))))))"

definition failure :: "Runtime \<Rightarrow> string \<Rightarrow> string \<Rightarrow> string \<Rightarrow> Date \<Rightarrow> string \<Rightarrow> ParseResult" where
  "failure rt message emailBody emailSubject receivedDate emailId =
     \<lparr> success = False, transaction = None, error = Some message,
       emailData = Some \<lparr> email_id = emailId, subject = emailSubject,
                          body_snippet = substring0 200 emailBody,
                          received_date = DateToString rt receivedDate,
                          sender = ''alerts@hdfcbank.net'' \<rparr> \<rparr>"

text \<open>The \<open>receivedDate\<close> argument is always a \<open>Date\<close> (the one caller passes one), so
  \<open>new Date(receivedDate)\<close> is that date.\<close>

definition parseHDFCEmail :: "Runtime \<Rightarrow> string \<Rightarrow> string \<Rightarrow> Date \<Rightarrow> string \<Rightarrow> ParseResult" where
  "parseHDFCEmail rt emailBody emailSubject receivedDate emailId =
     (case extract_fields rt emailBody emailSubject receivedDate of
        Inl message \<Rightarrow> failure rt message emailBody emailSubject receivedDate emailId
      | Inr t \<Rightarrow>
          if falsy_num (amount t) \<or> type_text (type t) = '''' \<or> account t = '''' then
            failure rt ''Missing required fields (amount, type, or account)''
              emailBody emailSubject receivedDate emailId
          else
            \<lparr> success = True,
              transaction = Some (if referenceNumber t = ''''
                                  then t\<lparr>referenceNumber := ''EMAIL_'' @ emailId\<rparr> else t),
              error = None, emailData = None \<rparr>)"


section \<open>The sync orchestrator (\<open>cron-service.ts\<close>)\<close>

subsection \<open>Account rows, messages, the ledger and the outside world\<close>

text \<open>
  A row of the \<open>users\<close> table. The column \<open>id\<close> is called \<open>user_id\<close> here; the
  column \<open>last_sync_time\<close> is written by the program though its interface \<open>User\<close> does
  not list it. Timestamps stored as ISO text are kept as time values.
\<close>

record MissedEmail =
  missed_email_id :: string
  missed_subject :: string
  missed_body_snippet :: string
  missed_received_date :: int
  missed_from :: string

record User =
  user_id :: string
  google_email :: string
  google_access_token :: string
  google_refresh_token :: string
  google_sheet_id :: "string option"
  last_processed_email_timestamp :: "int option"
  is_processing :: bool
  is_active :: bool
  missed_emails :: "MissedEmail list"
  last_sync_time :: "int option"

text \<open>A message as the mail provider returns it; \<open>data\<close> fields hold the decoded text.\<close>

record MessagePart =
  mimeType :: string
  part_data :: "string option"

record Payload =
  headers :: "(string \<times> string) list"
  body_data :: "string option"
  parts :: "MessagePart list option"

record GmailMessage =
  payload :: "Payload option"
  internalDate :: "string option"

text \<open>
  A spreadsheet: the rows of the sheet \<open>Transactions\<close> below its header line, each row the
  displayed text of its cells A to K, and the cell \<open>Metadata!B2\<close>. The ledger is taken
  to give back the text that was appended to it.
\<close>

record Spreadsheet =
  Transactions :: "string list list"
  Metadata_B2 :: "int option"

record World =
  users :: "User list"
  sheets :: "string \<Rightarrow> Spreadsheet"

datatype TokenResponse = FetchError | Response bool "string option"

text \<open>
  What the collaborators answer during one sync of one account: the cipher, the token
  endpoint, the mail provider, whether the three ledger calls fail, how the ledger displays
  a number, and the clock. \<open>None\<close> from the mail provider is a raised fault. The registry
  client reports its errors in its return value, which the program never reads, so the
  registry updates themselves do not raise.
\<close>

record Env =
  aes_gcm :: "string \<Rightarrow> string \<Rightarrow> string \<Rightarrow> string option"
  token_endpoint :: "string \<Rightarrow> TokenResponse"
  gmail_list :: "string \<Rightarrow> string list option"
  gmail_get :: "string \<Rightarrow> GmailMessage option"
  sheets_get_fails :: bool
  sheets_append_fails :: bool
  sheets_update_fails :: bool
  display_number :: "jsnum \<Rightarrow> string"
  now :: int

subsection \<open>\<open>decrypt\<close> and \<open>refreshAccessToken\<close>\<close>

text \<open>The text is 32 hex digits of IV, 32 of authentication tag, then the cipher text; any
  fault of the cipher is rethrown as \<open>'Failed to decrypt token'\<close>.\<close>

definition decrypt :: "Env \<Rightarrow> string \<Rightarrow> string + string" where
  "decrypt env encryptedText =
     (case aes_gcm env (take 32 encryptedText) (take 32 (drop 32 encryptedText))
             (drop 64 encryptedText) of
        None \<Rightarrow> Inl ''Failed to decrypt token''
      | Some decrypted \<Rightarrow> Inr decrypted)"

definition refreshAccessToken :: "Env \<Rightarrow> string \<Rightarrow> string option" where
  "refreshAccessToken env refreshToken =
     (case token_endpoint env refreshToken of
        FetchError \<Rightarrow> None
      | Response ok access_token \<Rightarrow> if \<not> ok then None else access_token)"

subsection \<open>Reading a message\<close>

definition isHexDigit :: "char \<Rightarrow> bool" where
  "isHexDigit c = (isDigit c \<or> (65 \<le> charCode c \<and> charCode c \<le> 70)
                   \<or> (97 \<le> charCode c \<and> charCode c \<le> 102))"

definition hex_val :: "char \<Rightarrow> nat" where
  "hex_val c = (if isDigit c then charCode c - 48
                else if charCode c \<le> 70 then charCode c - 55 else charCode c - 87)"

text \<open>\<open>parseInt(s)\<close> without a radix: as \<open>parseInt(s, 10)\<close>, except that a prefix
  \<open>0x\<close> or \<open>0X\<close> selects base 16.\<close>

definition parseInt_auto :: "string \<Rightarrow> jsint" where
  "parseInt_auto s =
     (let t = dropWhile isSpace s;
          neg = (case t of [] \<Rightarrow> False | a # _ \<Rightarrow> a = CHR ''-'');
          u = (case t of [] \<Rightarrow> [] | a # r \<Rightarrow> if a = CHR ''-'' \<or> a = CHR ''+'' then r else t)
      in if isPrefixOf ''0x'' u \<or> isPrefixOf ''0X'' u then
           (let hs = takeWhile isHexDigit (drop 2 u);
                v = int (foldl (\<lambda>n c. 16 * n + hex_val c) 0 hs)
            in if hs = [] then None else Some (if neg then - v else v))
         else parseInt (Some s))"

definition header_value :: "(string \<times> string) list \<Rightarrow> string \<Rightarrow> string option" where
  "header_value hs n = map_option snd (find (\<lambda>h. toLowerCase (fst h) = n) hs)"

definition message_headers :: "GmailMessage \<Rightarrow> (string \<times> string) list" where
  "message_headers msg = (case payload msg of None \<Rightarrow> [] | Some p \<Rightarrow> headers p)"

definition message_subject :: "GmailMessage \<Rightarrow> string" where
  "message_subject msg = text_or_empty (header_value (message_headers msg) ''subject'')"

definition message_receivedDate :: "Runtime \<Rightarrow> GmailMessage \<Rightarrow> Date" where
  "message_receivedDate rt msg =
     (let dateHeader = text_or_empty (header_value (message_headers msg) ''date'')
      in if dateHeader \<noteq> '''' then DateParse rt dateHeader
         else (case parseInt_auto (if text_or_empty (internalDate msg) = '''' then ''0''
                                   else text_or_empty (internalDate msg)) of
                 None \<Rightarrow> InvalidDate
               | Some n \<Rightarrow> TimeClip n))"

definition message_body :: "GmailMessage \<Rightarrow> string" where
  "message_body msg =
     (case payload msg of
        None \<Rightarrow> ''''
      | Some p \<Rightarrow>
          if text_or_empty (body_data p) \<noteq> '''' then text_or_empty (body_data p)
          else
            (case parts p of
               None \<Rightarrow> ''''
             | Some ps \<Rightarrow>
                 (case find (\<lambda>part. mimeType part = ''text/plain''
                                     \<and> text_or_empty (part_data part) \<noteq> '''') ps of
                    None \<Rightarrow> ''''
                  | Some part \<Rightarrow> text_or_empty (part_data part))))"

subsection \<open>The message loop of \<open>processUser\<close>\<close>

record LoopState =
  existingRefs :: "string set"
  newTransactions :: "ParsedTransaction list"
  missedEmails :: "MissedEmail list"
  latestTimestamp :: "Date option"

definition initial_loop :: "string set \<Rightarrow> LoopState" where
  "initial_loop refs =
     \<lparr> existingRefs = refs, newTransactions = [], missedEmails = [], latestTimestamp = None \<rparr>"

text \<open>\<open>if (!latestTimestamp || receivedDate > latestTimestamp) latestTimestamp = receivedDate\<close>\<close>

definition advance_latest :: "Date \<Rightarrow> LoopState \<Rightarrow> LoopState" where
  "advance_latest receivedDate st =
     (case latestTimestamp st of
        None \<Rightarrow> st\<lparr>latestTimestamp := Some receivedDate\<rparr>
      | Some l \<Rightarrow> if date_gt receivedDate l then st\<lparr>latestTimestamp := Some receivedDate\<rparr> else st)"

text \<open>
  One iteration. A fault inside it is caught and the message skipped: fetching the
  message may fail, and building the rejected entry calls \<open>toISOString\<close> on the received
  date. Nothing has been changed in that iteration when either is raised.
\<close>

definition process_message :: "Runtime \<Rightarrow> Env \<Rightarrow> LoopState \<Rightarrow> string \<Rightarrow> LoopState" where
  "process_message rt env st message_id =
     (case gmail_get env message_id of
        None \<Rightarrow> st
      | Some msg \<Rightarrow>
          (let subject = message_subject msg;
               receivedDate = message_receivedDate rt msg;
               body = message_body msg;
               result = parseHDFCEmail rt body subject receivedDate message_id
           in case (if success result then transaction result else None) of
                Some t \<Rightarrow>
                  advance_latest receivedDate
                    (if referenceNumber t \<notin> existingRefs st
                     then st\<lparr>newTransactions := newTransactions st @ [t],
                             existingRefs := insert (referenceNumber t) (existingRefs st)\<rparr>
                     else st)
              | None \<Rightarrow>
                  (case toISOString receivedDate of
                     None \<Rightarrow> st
                   | Some isoText \<Rightarrow>
                       advance_latest receivedDate
                         (st\<lparr>missedEmails := missedEmails st @
                               [\<lparr> missed_email_id = message_id, missed_subject = subject,
                                  missed_body_snippet = substring0 200 body,
                                  missed_received_date = isoText,
                                  missed_from = ''alerts@hdfcbank.net'' \<rparr>]\<rparr>))))"

subsection \<open>The ledger\<close>

text \<open>\<open>values.get\<close> on \<open>Transactions!G2:G\<close>: one row per line, empty for a blank cell.\<close>

definition read_column_G :: "Spreadsheet \<Rightarrow> string list list" where
  "read_column_G sh =
     map (\<lambda>row. if text_or_empty (at_index row 6) = '''' then [] else [text_or_empty (at_index row 6)])
         (Transactions sh)"

text \<open>\<open>forEach(row => { if (row[0]) existingRefs.add(row[0]) })\<close>\<close>

definition column_refs :: "string list list \<Rightarrow> string set" where
  "column_refs rows =
     foldl (\<lambda>refs row. if text_or_empty (at_index row 0) \<noteq> ''''
                        then insert (text_or_empty (at_index row 0)) refs else refs) {} rows"

definition transaction_row :: "Env \<Rightarrow> ParsedTransaction \<Rightarrow> string list" where
  "transaction_row env t =
     [dateTime t, display_number env (amount t), type_text (type t), method t, account t,
      description t, referenceNumber t,
      (case availableBalance t of NA \<Rightarrow> ''N/A'' | Balance b \<Rightarrow> display_number env b),
      category t, notes t, emailReceivedDate t]"

definition append_rows :: "string \<Rightarrow> string list list \<Rightarrow> World \<Rightarrow> World" where
  "append_rows sid rows w =
     w\<lparr>sheets := (sheets w)(sid := (sheets w sid)\<lparr>Transactions := Transactions (sheets w sid) @ rows\<rparr>)\<rparr>"

definition set_metadata :: "string \<Rightarrow> int \<Rightarrow> World \<Rightarrow> World" where
  "set_metadata sid isoText w =
     w\<lparr>sheets := (sheets w)(sid := (sheets w sid)\<lparr>Metadata_B2 := Some isoText\<rparr>)\<rparr>"

subsection \<open>\<open>processUser\<close> and \<open>runCron\<close>\<close>

text \<open>\<open>supabase.from('users').update(...).eq('id', uid)\<close>\<close>

definition update_user :: "string \<Rightarrow> (User \<Rightarrow> User) \<Rightarrow> World \<Rightarrow> World" where
  "update_user uid f w = w\<lparr>users := map (\<lambda>u. if user_id u = uid then f u else u) (users w)\<rparr>"

definition build_query :: "User \<Rightarrow> string" where
  "build_query user =
     ''from:alerts@hdfcbank.net (credited OR debited OR UPI OR transaction)'' @
     (case last_processed_email_timestamp user of
        None \<Rightarrow> ''''
      | Some lastProcessed \<Rightarrow> '' after:'' @ String_of (Some (lastProcessed div 1000)))"

text \<open>\<open>xs.slice(-n)\<close>\<close>

definition slice_last :: "nat \<Rightarrow> 'a list \<Rightarrow> 'a list" where
  "slice_last n xs = drop (length xs - n) xs"

text \<open>How the \<open>try\<close> block of \<open>processUser\<close> ends: with a fault for its \<open>catch\<close>, or
  with a return value (\<open>null\<close> is \<open>None\<close>, otherwise the counts of transactions and of
  missed messages).\<close>

datatype outcome = Thrown | Returned "(nat \<times> nat) option"

text \<open>After the loop: the batch append, the metadata cell (its own \<open>try\<close>), the combined
  update of the account row. \<open>toISOString\<close> on an invalid latest timestamp is caught
  around the metadata cell and raised to the outer \<open>catch\<close> in the account update.\<close>

definition finish_sync :: "Env \<Rightarrow> World \<Rightarrow> User \<Rightarrow> string \<Rightarrow> LoopState \<Rightarrow> outcome \<times> World" where
  "finish_sync env w user sid st =
     (if newTransactions st \<noteq> [] \<and> sheets_append_fails env then (Thrown, w)
      else
        (let w1 = (if newTransactions st \<noteq> []
                   then append_rows sid (map (transaction_row env) (newTransactions st)) w
                   else w);
             w2 = (case latestTimestamp st of
                     None \<Rightarrow> w1
                   | Some l \<Rightarrow>
                       (case toISOString l of
                          None \<Rightarrow> w1
                        | Some isoText \<Rightarrow> if sheets_update_fails env then w1
                                           else set_metadata sid isoText w1))
         in case latestTimestamp st of
              Some InvalidDate \<Rightarrow> (Thrown, w2)
            | Some (Time t) \<Rightarrow>
                (Returned (Some (length (newTransactions st), length (missedEmails st))),
                 update_user (user_id user)
                   (\<lambda>u. u\<lparr>last_processed_email_timestamp := Some t,
                          last_sync_time := Some (now env),
                          is_processing := False,
                          missed_emails := slice_last 50 (missed_emails user @ missedEmails st)\<rparr>) w2)
            | None \<Rightarrow>
                (Returned (Some (length (newTransactions st), length (missedEmails st))),
                 update_user (user_id user)
                   (\<lambda>u. u\<lparr>last_processed_email_timestamp := last_processed_email_timestamp user,
                          last_sync_time := Some (now env),
                          is_processing := False,
                          missed_emails := slice_last 50 (missed_emails user @ missedEmails st)\<rparr>) w2)))"

text \<open>The \<open>try\<close> block, for an account whose sheet identifier is \<open>sid\<close>.\<close>

definition sync_body :: "Runtime \<Rightarrow> Env \<Rightarrow> World \<Rightarrow> User \<Rightarrow> string \<Rightarrow> outcome \<times> World" where
  "sync_body rt env w user sid =
     (case decrypt env (google_refresh_token user) of
        Inl e \<Rightarrow> (Thrown, w)
      | Inr refreshToken \<Rightarrow>
          if text_or_empty (refreshAccessToken env refreshToken) = '''' then
            (Returned None,
             update_user (user_id user) (\<lambda>u. u\<lparr>is_active := False, is_processing := False\<rparr>) w)
          else
            (case gmail_list env (build_query user) of
               None \<Rightarrow> (Thrown, w)
             | Some messages \<Rightarrow>
                 if messages = [] then
                   (Returned (Some (0, 0)),
                    update_user (user_id user)
                      (\<lambda>u. u\<lparr>is_processing := False, last_sync_time := Some (now env)\<rparr>) w)
                 else
                   (let existing = (if sheets_get_fails env then {}
                                    else column_refs (read_column_G (sheets w sid)));
                        st = foldl (process_message rt env) (initial_loop existing) messages
                    in finish_sync env w user sid st)))"

definition processUser :: "Runtime \<Rightarrow> Env \<Rightarrow> World \<Rightarrow> User \<Rightarrow> (nat \<times> nat) option \<times> World" where
  "processUser rt env w user =
     (if text_or_empty (google_sheet_id user) = '''' then (Some (0, 0), w)
      else if is_processing user then (Some (0, 0), w)
      else
        (case sync_body rt env
                (update_user (user_id user) (\<lambda>u. u\<lparr>is_processing := True\<rparr>) w) user
                (text_or_empty (google_sheet_id user)) of
           (Returned r, w') \<Rightarrow> (r, w')
         | (Thrown, w') \<Rightarrow>
             (None, update_user (user_id user) (\<lambda>u. u\<lparr>is_processing := False\<rparr>) w')))"

text \<open>The loop of \<open>runCron\<close> over the accounts it read at the start of the cycle; each
  account has its own answers of the outside world.\<close>

fun cron_loop :: "Runtime \<Rightarrow> (string \<Rightarrow> Env) \<Rightarrow> User list \<Rightarrow> nat \<times> nat \<times> World \<Rightarrow> nat \<times> nat \<times> World" where
  "cron_loop rt envs [] acc = acc"
| "cron_loop rt envs (user # rest) (totalTransactions, totalMissed, w) =
     (case processUser rt (envs (user_id user)) w user of
        (Some (t, m), w') \<Rightarrow> cron_loop rt envs rest (totalTransactions + t, totalMissed + m, w')
      | (None, w') \<Rightarrow> cron_loop rt envs rest (totalTransactions, totalMissed, w'))"

datatype CronResult = CronFailed string | NoUsers | CronDone nat nat

definition runCron :: "Runtime \<Rightarrow> (string \<Rightarrow> Env) \<Rightarrow> string option \<Rightarrow> World \<Rightarrow> CronResult \<times> World" where
  "runCron rt envs select_error w =
     (case select_error of
        Some message \<Rightarrow> (CronFailed message, w)
      | None \<Rightarrow>
          (let active = filter is_active (users w)
           in if active = [] then (NoUsers, w)
              else (case cron_loop rt envs active (0, 0, w) of
                      (totalTransactions, totalMissed, w') \<Rightarrow>
                        (CronDone totalTransactions totalMissed, w'))))"


section \<open>Sample inputs\<close>

text \<open>A runtime in the zone UTC+05:30, one account, and an outside world in which every
  collaborator answers and the mailbox is empty.\<close>

definition demo_rt :: Runtime where
  "demo_rt = \<lparr> LocalTZA = (\<lambda>t isUTC. 19800000), DateParse = (\<lambda>s. InvalidDate), DateToString = (\<lambda>d. '''') \<rparr>"

definition demo_user :: User where
  "demo_user =
     \<lparr> user_id = ''u1'', google_email = ''a@example.com'', google_access_token = '''',
       google_refresh_token = ''0123'', google_sheet_id = Some ''sheet1'',
       last_processed_email_timestamp = Some 2000, is_processing = False, is_active = True,
       missed_emails = [], last_sync_time = None \<rparr>"

definition demo_env :: Env where
  "demo_env =
     \<lparr> aes_gcm = (\<lambda>iv tag ct. Some ''refresh''),
       token_endpoint = (\<lambda>t. Response True (Some ''access'')),
       gmail_list = (\<lambda>q. Some []),
       gmail_get = (\<lambda>i. None),
       sheets_get_fails = False, sheets_append_fails = False, sheets_update_fails = False,
       display_number = (\<lambda>n. ''''), now = 5000 \<rparr>"

definition demo_world :: World where
  "demo_world = \<lparr> users = [demo_user], sheets = (\<lambda>sid. \<lparr> Transactions = [], Metadata_B2 = None \<rparr>) \<rparr>"

text \<open>The same world, but the cipher rejects the stored credential, or the mail provider's
  listing call fails.\<close>

definition env_decrypt_fails :: Env where
  "env_decrypt_fails = demo_env\<lparr>aes_gcm := (\<lambda>iv tag ct. None)\<rparr>"

definition env_list_fails :: Env where
  "env_list_fails = demo_env\<lparr>gmail_list := (\<lambda>q. None)\<rparr>"

text \<open>Three accounts; the listing call fails for the first one only.\<close>

definition demo_user2 :: User where
  "demo_user2 = demo_user\<lparr>user_id := ''u2'', google_email := ''b@example.com''\<rparr>"

definition demo_user3 :: User where
  "demo_user3 = demo_user\<lparr>user_id := ''u3'', google_email := ''c@example.com''\<rparr>"

definition demo_world3 :: World where
  "demo_world3 = demo_world\<lparr>users := [demo_user, demo_user2, demo_user3]\<rparr>"

definition demo_envs :: "string \<Rightarrow> Env" where
  "demo_envs uid = (if uid = ''u1'' then env_list_fails else demo_env)"


section \<open>Running the matcher on a given text\<close>

text \<open>
  To evaluate \<open>re_m\<close> on a concrete text its continuations are written as a stack of
  frames and the rest of the input as a position in the text: \<open>denote\<close> gives the
  continuation a stack stands for, \<open>run\<close> is the matcher on stacks, with a budget of
  steps (\<open>None\<close> when it runs out), and \<open>exec_at\<close> tries the start positions from
  the left as \<open>exec\<close> does. They are proved below to give the results of \<open>re_m\<close>
  and \<open>exec\<close> whenever the budget suffices, and serve only to compute those.
\<close>

datatype frame =
    FR re
  | FClose nat nat
  | FRep nat nat "nat option" bool re
  | FProg nat

definition substr :: "string \<Rightarrow> nat \<Rightarrow> nat \<Rightarrow> string" where
  "substr inp i j = take (j - i) (drop i inp)"

fun denote :: "bool \<Rightarrow> string \<Rightarrow> frame list \<Rightarrow> mstate \<Rightarrow> mstate option" where
  "denote ic inp [] x = Some x"
| "denote ic inp (FR r # k) x = re_m r ic x (denote ic inp k)"
| "denote ic inp (FClose j i0 # k) x =
     denote ic inp k
       (fst x, (snd x)(j \<mapsto> take ((length inp - i0) - length (fst x)) (drop i0 inp)))"
| "denote ic inp (FRep f mn mx g r # k) x = rep_iter f (re_m r ic) mn mx g x (denote ic inp k)"
| "denote ic inp (FProg i0 # k) x =
     (if length (fst x) = length inp - i0 then None else denote ic inp k x)"

fun run :: "nat \<Rightarrow> bool \<Rightarrow> string \<Rightarrow> frame list \<Rightarrow> nat \<Rightarrow> captures \<Rightarrow> (nat \<times> captures) option option" where
  "run 0 ic inp k i cp = None"
| "run (Suc n) ic inp [] i cp = Some (Some (i, cp))"
| "run (Suc n) ic inp (FR (Atom a) # k) i cp =
     (if i < length inp then
        (if atom_match ic a (inp ! i) then run n ic inp k (Suc i) cp else Some None)
      else Some None)"
| "run (Suc n) ic inp (FR Eps # k) i cp = run n ic inp k i cp"
| "run (Suc n) ic inp (FR AtEnd # k) i cp =
     (if length inp \<le> i then run n ic inp k i cp else Some None)"
| "run (Suc n) ic inp (FR (Cat r1 r2) # k) i cp = run n ic inp (FR r1 # FR r2 # k) i cp"
| "run (Suc n) ic inp (FR (Alt r1 r2) # k) i cp =
     (case run n ic inp (FR r1 # k) i cp of
        None \<Rightarrow> None
      | Some None \<Rightarrow> run n ic inp (FR r2 # k) i cp
      | Some (Some z) \<Rightarrow> Some (Some z))"
| "run (Suc n) ic inp (FR (Cap j r) # k) i cp = run n ic inp (FR r # FClose j i # k) i cp"
| "run (Suc n) ic inp (FR (Rep mn mx g r) # k) i cp =
     run n ic inp (FRep (Suc (length inp - i + mn)) mn mx g r # k) i cp"
| "run (Suc n) ic inp (FClose j i0 # k) i cp = run n ic inp k i (cp(j \<mapsto> substr inp i0 i))"
| "run (Suc n) ic inp (FRep 0 mn mx g r # k) i cp = Some None"
| "run (Suc n) ic inp (FRep (Suc f) mn mx g r # k) i cp =
     (if mx = Some 0 then run n ic inp k i cp
      else if mn \<noteq> 0 then
        run n ic inp (FR r # FRep f (mn - 1) (dec_max mx) g r # k) i cp
      else if \<not> g then
        (case run n ic inp k i cp of
           None \<Rightarrow> None
         | Some None \<Rightarrow> run n ic inp (FR r # FProg i # FRep f 0 (dec_max mx) g r # k) i cp
         | Some (Some z) \<Rightarrow> Some (Some z))
      else
        (case run n ic inp (FR r # FProg i # FRep f 0 (dec_max mx) g r # k) i cp of
           None \<Rightarrow> None
         | Some None \<Rightarrow> run n ic inp k i cp
         | Some (Some z) \<Rightarrow> Some (Some z)))"
| "run (Suc n) ic inp (FProg i0 # k) i cp =
     (if i = i0 then Some None else run n ic inp k i cp)"

fun exec_at :: "nat \<Rightarrow> re \<Rightarrow> bool \<Rightarrow> string \<Rightarrow> nat \<Rightarrow> nat \<Rightarrow> (string \<times> captures) option option" where
  "exec_at n r ic inp i 0 = Some None"
| "exec_at n r ic inp i (Suc m) =
     (case run n ic inp [FR r] i Map.empty of
        None \<Rightarrow> None
      | Some None \<Rightarrow> exec_at n r ic inp (Suc i) m
      | Some (Some z) \<Rightarrow> Some (Some (substr inp i (fst z), snd z)))"

definition at_pos :: "string \<Rightarrow> nat \<times> captures \<Rightarrow> mstate" where
  "at_pos inp y = (drop (fst y) inp, snd y)"

definition frames_ok :: "string \<Rightarrow> frame list \<Rightarrow> bool" where
  "frames_ok inp k = (\<forall>fr \<in> set k. case fr of FProg i0 \<Rightarrow> i0 \<le> length inp
                                          | FClose j i0 \<Rightarrow> i0 \<le> length inp | _ \<Rightarrow> True)"

section \<open>The orchestrator: an empty mailbox\<close>

text \<open>
  C10. For an account that passes the entry guards, whose credentials are accepted and
  whose query retrieves no message, the sync returns the counts (0, 0) and the only change
  to the world is on the rows of that account in the registry: the busy flag is cleared and
  the last-sync time is set. The watermark, the rejected-message log and the active flag of
  the row are as before, and no ledger is touched.
\<close>

theorem zero_messages_frame:
  assumes "text_or_empty (google_sheet_id user) \<noteq> ''''"
    and "\<not> is_processing user"
    and "decrypt env (google_refresh_token user) = Inr refreshToken"
    and "text_or_empty (refreshAccessToken env refreshToken) \<noteq> ''''"
    and "gmail_list env (build_query user) = Some []"
  shows "processUser rt env w user =
           (Some (0, 0),
            w\<lparr>users := map (\<lambda>u. if user_id u = user_id user
                                 then u\<lparr>is_processing := False, last_sync_time := Some (now env)\<rparr>
                                 else u) (users w)\<rparr>)"
  using assms
  by (simp add: processUser_def sync_body_def update_user_def comp_def cong: if_cong)

theorem zero_messages_frame_witness:
  "text_or_empty (google_sheet_id demo_user) \<noteq> '''' \<and> \<not> is_processing demo_user \<and>
   decrypt demo_env (google_refresh_token demo_user) = Inr ''refresh'' \<and>
   text_or_empty (refreshAccessToken demo_env ''refresh'') \<noteq> '''' \<and>
   gmail_list demo_env (build_query demo_user) = Some [] \<and>
   processUser demo_rt demo_env demo_world demo_user =
     (Some (0, 0),
      demo_world\<lparr>users := [demo_user\<lparr>is_processing := False, last_sync_time := Some 5000\<rparr>]\<rparr>)"
proof -
  have h: "text_or_empty (google_sheet_id demo_user) \<noteq> ''''" "\<not> is_processing demo_user"
    "decrypt demo_env (google_refresh_token demo_user) = Inr ''refresh''"
    "text_or_empty (refreshAccessToken demo_env ''refresh'') \<noteq> ''''"
    "gmail_list demo_env (build_query demo_user) = Some []"
    by (simp_all add: demo_user_def demo_env_def text_or_empty_def decrypt_def refreshAccessToken_def)
  show ?thesis
    using h zero_messages_frame [OF h, of demo_rt demo_world]
    by (simp add: demo_world_def demo_env_def)
qed


section \<open>The orchestrator: faults\<close>

lemma users_append_rows: "users (append_rows sid rows w) = users w"
  by (simp add: append_rows_def)

lemma users_set_metadata: "users (set_metadata sid t w) = users w"
  by (simp add: set_metadata_def)

lemma finish_sync_thrown_users:
  "finish_sync env w user sid st = (Thrown, w') \<Longrightarrow> users w' = users w"
  by (auto simp: finish_sync_def Let_def users_append_rows users_set_metadata toISOString_def
           split: if_splits option.splits Date.splits)

text \<open>A fault leaves the \<open>try\<close> block before any registry update of it.\<close>

lemma sync_body_thrown_users:
  "sync_body rt env w user sid = (Thrown, w') \<Longrightarrow> users w' = users w"
  by (auto simp: sync_body_def Let_def split: sum.splits if_splits option.splits
           dest: finish_sync_thrown_users)

text \<open>The sibling path: a refused token exchange deactivates the account.\<close>

lemma token_refusal_deactivates:
  assumes "text_or_empty (google_sheet_id user) \<noteq> ''''"
    and "\<not> is_processing user"
    and "decrypt env (google_refresh_token user) = Inr refreshToken"
    and "text_or_empty (refreshAccessToken env refreshToken) = ''''"
  shows "processUser rt env w user =
           (None,
            w\<lparr>users := map (\<lambda>u. if user_id u = user_id user
                                 then u\<lparr>is_processing := False, is_active := False\<rparr>
                                 else u) (users w)\<rparr>)"
  using assms
  by (simp add: processUser_def sync_body_def update_user_def comp_def cong: if_cong)

text \<open>
  C7. Credential acquisition has two steps. When the second one fails (the token exchange
  is refused) the account is deactivated, as \<open>token_refusal_deactivates\<close> shows. When the
  first one fails the account is not: for the sample account, whose stored refresh
  credential the cipher rejects, \<open>decrypt\<close> raises, \<open>processUser\<close> returns \<open>null\<close>
  having processed no message, the busy flag is clear again, and the account is still
  active in the registry.
\<close>

theorem decrypt_failure_keeps_account_active:
  "decrypt env_decrypt_fails (google_refresh_token demo_user) = Inl ''Failed to decrypt token'' \<and>
   processUser demo_rt env_decrypt_fails demo_world demo_user = (None, demo_world) \<and>
   map is_active (users demo_world) = [True]"
  by (simp add: env_decrypt_fails_def demo_env_def demo_user_def demo_world_def demo_rt_def
        decrypt_def processUser_def sync_body_def update_user_def text_or_empty_def)

text \<open>The loop of \<open>runCron\<close> runs \<open>processUser\<close> on every account of its list, in
  order, whatever the earlier accounts returned.\<close>

lemma cron_loop_foldl:
  "cron_loop rt envs accounts acc =
     foldl (\<lambda>(a, b, v) u. case processUser rt (envs (user_id u)) v u of
                              (Some (t, m), v') \<Rightarrow> (a + t, b + m, v')
                            | (None, v') \<Rightarrow> (a, b, v')) acc accounts"
proof (induction accounts arbitrary: acc)
  case Nil
  show ?case by simp
next
  case (Cons u us)
  obtain a b v where acc: "acc = (a, b, v)" by (cases acc)
  obtain r v' where p: "processUser rt (envs (user_id u)) v u = (r, v')"
    by (cases "processUser rt (envs (user_id u)) v u")
  show ?case
  proof (cases r)
    case None
    with acc p Cons.IH show ?thesis by simp
  next
    case (Some c)
    obtain t m where "c = (t, m)" by (cases c)
    with Some acc p Cons.IH show ?thesis by simp
  qed
qed

text \<open>
  C8. When the \<open>try\<close> block of \<open>processUser\<close> ends in a fault (one that no narrower
  handler took), \<open>processUser\<close> returns \<open>null\<close>; in the registry the rows of that account
  have the busy flag cleared and are otherwise as before, so the account stays active, and
  the rows of the other accounts are untouched; and the loop of \<open>runCron\<close> goes on: its
  result is the one of running \<open>processUser\<close> on each of the remaining accounts in turn,
  from the world the failed account left and with the totals unchanged by it.
\<close>

theorem account_fault_isolated:
  assumes guard: "text_or_empty (google_sheet_id user) \<noteq> ''''" "\<not> is_processing user"
    and fault: "sync_body rt (envs (user_id user))
                  (update_user (user_id user) (\<lambda>u. u\<lparr>is_processing := True\<rparr>) w) user
                  (text_or_empty (google_sheet_id user)) = (Thrown, w')"
  shows "fst (processUser rt (envs (user_id user)) w user) = None \<and>
         users (snd (processUser rt (envs (user_id user)) w user)) =
           map (\<lambda>u. if user_id u = user_id user then u\<lparr>is_processing := False\<rparr> else u) (users w) \<and>
         cron_loop rt envs (user # rest) (totalTransactions, totalMissed, w) =
           cron_loop rt envs rest
             (totalTransactions, totalMissed, snd (processUser rt (envs (user_id user)) w user)) \<and>
         cron_loop rt envs (user # rest) (totalTransactions, totalMissed, w) =
           foldl (\<lambda>(a, b, v) u. case processUser rt (envs (user_id u)) v u of
                                    (Some (t, m), v') \<Rightarrow> (a + t, b + m, v')
                                  | (None, v') \<Rightarrow> (a, b, v'))
             (totalTransactions, totalMissed, snd (processUser rt (envs (user_id user)) w user))
             rest"
proof -
  have p: "processUser rt (envs (user_id user)) w user =
             (None, update_user (user_id user) (\<lambda>u. u\<lparr>is_processing := False\<rparr>) w')"
    using guard fault by (simp add: processUser_def)
  have u: "users w' = users (update_user (user_id user) (\<lambda>u. u\<lparr>is_processing := True\<rparr>) w)"
    using fault by (rule sync_body_thrown_users)
  have m: "users (update_user (user_id user) (\<lambda>u. u\<lparr>is_processing := False\<rparr>) w') =
          map (\<lambda>u. if user_id u = user_id user then u\<lparr>is_processing := False\<rparr> else u) (users w)"
    by (simp add: update_user_def u comp_def cong: if_cong)
  have c: "cron_loop rt envs (user # rest) (totalTransactions, totalMissed, w) =
             cron_loop rt envs rest
               (totalTransactions, totalMissed, snd (processUser rt (envs (user_id user)) w user))"
    using p by simp
  from p m c show ?thesis
    by (simp add: cron_loop_foldl [of rt envs rest])
qed

text \<open>Three accounts: the first fails at the listing call, the second and the third are
  still synchronised (their last-sync time is set), and the first is left active and idle.\<close>

theorem account_fault_isolated_witness:
  "text_or_empty (google_sheet_id demo_user) \<noteq> '''' \<and> \<not> is_processing demo_user \<and>
   sync_body demo_rt (demo_envs (user_id demo_user))
     (update_user (user_id demo_user) (\<lambda>u. u\<lparr>is_processing := True\<rparr>) demo_world3) demo_user
     (text_or_empty (google_sheet_id demo_user)) =
     (Thrown, update_user (user_id demo_user) (\<lambda>u. u\<lparr>is_processing := True\<rparr>) demo_world3) \<and>
   fst (processUser demo_rt (demo_envs (user_id demo_user)) demo_world3 demo_user) = None \<and>
   users (snd (processUser demo_rt (demo_envs (user_id demo_user)) demo_world3 demo_user)) =
     [demo_user, demo_user2, demo_user3] \<and>
   cron_loop demo_rt demo_envs [demo_user, demo_user2, demo_user3] (0, 0, demo_world3) =
     (0, 0, demo_world3\<lparr>users := [demo_user,
                                     demo_user2\<lparr>last_sync_time := Some 5000\<rparr>,
                                     demo_user3\<lparr>last_sync_time := Some 5000\<rparr>]\<rparr>)"
proof -
  have g: "text_or_empty (google_sheet_id demo_user) \<noteq> ''''" "\<not> is_processing demo_user"
    by (simp_all add: demo_user_def text_or_empty_def)
  have f: "sync_body demo_rt (demo_envs (user_id demo_user))
     (update_user (user_id demo_user) (\<lambda>u. u\<lparr>is_processing := True\<rparr>) demo_world3) demo_user
     (text_or_empty (google_sheet_id demo_user)) =
     (Thrown, update_user (user_id demo_user) (\<lambda>u. u\<lparr>is_processing := True\<rparr>) demo_world3)"
    by (simp add: sync_body_def demo_envs_def env_list_fails_def demo_env_def demo_user_def
          decrypt_def refreshAccessToken_def text_or_empty_def)
  note t = account_fault_isolated [where rt = demo_rt and envs = demo_envs and user = demo_user
      and w = demo_world3 and rest = "[demo_user2, demo_user3]" and totalTransactions = 0
      and totalMissed = 0, OF g f]
  have d: "map (\<lambda>u. if user_id u = user_id demo_user then u\<lparr>is_processing := False\<rparr> else u)
             (users demo_world3) = [demo_user, demo_user2, demo_user3]"
    by (simp add: demo_world3_def demo_user_def demo_user2_def demo_user3_def)
  have w1: "processUser demo_rt (demo_envs (user_id demo_user)) demo_world3 demo_user =
              (None, demo_world3)"
    by (simp add: processUser_def sync_body_def demo_envs_def env_list_fails_def demo_env_def
          demo_user_def demo_user2_def demo_user3_def demo_world3_def demo_world_def decrypt_def
          refreshAccessToken_def text_or_empty_def update_user_def)
  have p2: "processUser demo_rt (demo_envs (user_id demo_user2)) demo_world3 demo_user2 =
              (Some (0, 0), demo_world3\<lparr>users := [demo_user,
                                                    demo_user2\<lparr>last_sync_time := Some 5000\<rparr>,
                                                    demo_user3]\<rparr>)"
    by (simp add: processUser_def sync_body_def demo_envs_def demo_env_def demo_user_def
          demo_user2_def demo_user3_def demo_world3_def demo_world_def decrypt_def
          refreshAccessToken_def text_or_empty_def update_user_def)
  have p3: "processUser demo_rt (demo_envs (user_id demo_user3))
              (demo_world3\<lparr>users := [demo_user, demo_user2\<lparr>last_sync_time := Some 5000\<rparr>,
                                       demo_user3]\<rparr>) demo_user3 =
              (Some (0, 0), demo_world3\<lparr>users := [demo_user,
                                                    demo_user2\<lparr>last_sync_time := Some 5000\<rparr>,
                                                    demo_user3\<lparr>last_sync_time := Some 5000\<rparr>]\<rparr>)"
    by (simp add: processUser_def sync_body_def demo_envs_def demo_env_def demo_user_def
          demo_user2_def demo_user3_def demo_world3_def demo_world_def decrypt_def
          refreshAccessToken_def text_or_empty_def update_user_def)
  from g f t d show ?thesis
    by (simp add: w1 p2 p3)
qed


section \<open>Running the matcher: the stack machine computes \<open>re_m\<close> and \<open>exec\<close>\<close>

lemma frames_ok_simps [simp]:
  "frames_ok inp []"
  "frames_ok inp (FR r # k) = frames_ok inp k"
  "frames_ok inp (FRep f mn mx g r # k) = frames_ok inp k"
  "frames_ok inp (FProg i0 # k) = (i0 \<le> length inp \<and> frames_ok inp k)"
  "frames_ok inp (FClose j i0 # k) = (i0 \<le> length inp \<and> frames_ok inp k)"
  by (simp_all add: frames_ok_def)

lemma denote_frames [simp]:
  "denote ic inp [] = Some"
  "denote ic inp (FR r # k) = (\<lambda>x. re_m r ic x (denote ic inp k))"
  "denote ic inp (FClose j i0 # k) =
     (\<lambda>x. denote ic inp k
        (fst x, (snd x)(j \<mapsto> take ((length inp - i0) - length (fst x)) (drop i0 inp))))"
  "denote ic inp (FRep f mn mx g r # k) =
     (\<lambda>x. rep_iter f (re_m r ic) mn mx g x (denote ic inp k))"
  "denote ic inp (FProg i0 # k) =
     (\<lambda>x. if length (fst x) = length inp - i0 then None else denote ic inp k x)"
  by (rule ext, simp)+

lemma run_sound:
  "run n ic inp k i cp = Some v \<Longrightarrow> i \<le> length inp \<Longrightarrow> frames_ok inp k \<Longrightarrow>
     denote ic inp k (drop i inp, cp) = map_option (at_pos inp) v \<and>
     (\<forall>y. v = Some y \<longrightarrow> fst y \<le> length inp)"
proof (induction n ic inp k i cp arbitrary: v rule: run.induct)
  case (3 n ic inp a k i cp)
  show ?case
  proof (cases "i < length inp")
    case True
    then have d: "drop i inp = inp ! i # drop (Suc i) inp"
      by (simp add: Cons_nth_drop_Suc)
    show ?thesis
    proof (cases "atom_match ic a (inp ! i)")
      case m: True
      from "3.prems" True m have "run n ic inp k (Suc i) cp = Some v" by simp
      from "3.IH" [OF True m this] True "3.prems"(3) d m show ?thesis by simp
    next
      case False
      with "3.prems" True d show ?thesis by auto
    qed
  next
    case False
    with "3.prems" show ?thesis by auto
  qed
next
  case (7 n ic inp r1 r2 k i cp)
  from "7.prems" obtain x where x: "run n ic inp (FR r1 # k) i cp = Some x"
    by (auto split: option.splits)
  from "7.IH"(1) [OF x "7.prems"(2)] "7.prems"(3)
  have d1: "re_m r1 ic (drop i inp, cp) (denote ic inp k) = map_option (at_pos inp) x"
    and b1: "\<forall>y. x = Some y \<longrightarrow> fst y \<le> length inp"
    by simp_all
  show ?case
  proof (cases x)
    case None
    with "7.prems" x have "run n ic inp (FR r2 # k) i cp = Some v" by simp
    from "7.IH"(2) [OF x None this "7.prems"(2)] "7.prems"(3) d1 None show ?thesis by simp
  next
    case (Some z)
    with "7.prems" x d1 b1 show ?thesis by auto
  qed
next
  case (8 n ic inp j r k i cp)
  from "8.prems" have "run n ic inp (FR r # FClose j i # k) i cp = Some v" by simp
  from "8.IH" [OF this "8.prems"(2)] "8.prems"(2,3) show ?case by simp
next
  case (9 n ic inp mn mx g r k i cp)
  from "9.prems" have "run n ic inp (FRep (Suc (length inp - i + mn)) mn mx g r # k) i cp = Some v"
    by simp
  have ok: "frames_ok inp (FRep (Suc (length inp - i + mn)) mn mx g r # k)"
    using "9.prems"(3) by simp
  from "9.IH" [OF \<open>run n ic inp (FRep (Suc (length inp - i + mn)) mn mx g r # k) i cp = Some v\<close>
      "9.prems"(2) ok]
  have a: "denote ic inp (FRep (Suc (length inp - i + mn)) mn mx g r # k) (drop i inp, cp) =
             map_option (at_pos inp) v"
    and b: "\<forall>y. v = Some y \<longrightarrow> fst y \<le> length inp"
    by blast+
  have "denote ic inp (FR (Rep mn mx g r) # k) (drop i inp, cp) =
          denote ic inp (FRep (Suc (length inp - i + mn)) mn mx g r # k) (drop i inp, cp)"
    by (simp only: denote.simps re_m.simps fst_conv length_drop)
  with a have "denote ic inp (FR (Rep mn mx g r) # k) (drop i inp, cp) = map_option (at_pos inp) v"
    by (rule trans [OF _ _, rotated])
  with b show ?case by blast
next
  case (10 n ic inp j i0 k i cp)
  from "10.prems" have r: "run n ic inp k i (cp(j \<mapsto> substr inp i0 i)) = Some v" by simp
  from "10.prems"(3) have ok: "frames_ok inp k" and i0: "i0 \<le> length inp" by simp_all
  from "10.IH" [OF r "10.prems"(2) ok]
  have a: "denote ic inp k (drop i inp, cp(j \<mapsto> substr inp i0 i)) = map_option (at_pos inp) v"
    and b: "\<forall>y. v = Some y \<longrightarrow> fst y \<le> length inp"
    by blast+
  have "length inp - i0 - (length inp - i) = i - i0"
    using "10.prems"(2) by arith
  then have "denote ic inp (FClose j i0 # k) (drop i inp, cp) =
               denote ic inp k (drop i inp, cp(j \<mapsto> substr inp i0 i))"
    by (simp add: substr_def del: fun_upd_apply)
  with a b show ?case by simp
next
  case (12 n ic inp f mn mx g r k i cp)
  let ?again = "FR r # FProg i # FRep f 0 (dec_max mx) g r # k"
  have ok: "frames_ok inp ?again" using "12.prems"(2,3) by simp
  have okk: "frames_ok inp k" using "12.prems"(3) by simp
  have lenq: "\<And>y. (length (fst y) = length inp - i) = (length (fst y) = length (fst (drop i inp, cp)))"
    by simp
  show ?case
  proof (cases "mx = Some 0")
    case True
    with "12.prems" "12.IH"(1) show ?thesis by simp
  next
    case False
    note mx = False
    show ?thesis
    proof (cases "mn = 0")
      case False
      with mx "12.prems" "12.IH"(2) show ?thesis by simp
    next
      case True
      note mn = True
      show ?thesis
      proof (cases g)
        case False
        from "12.prems" mx mn False obtain x where x: "run n ic inp k i cp = Some x"
          by (auto split: option.splits)
        from "12.IH"(3) [OF mx _ False x "12.prems"(2) okk] mn
        have d1: "denote ic inp k (drop i inp, cp) = map_option (at_pos inp) x"
          and b1: "\<forall>y. x = Some y \<longrightarrow> fst y \<le> length inp"
          by simp_all
        show ?thesis
        proof (cases x)
          case None
          with "12.prems" mx mn False x have "run n ic inp ?again i cp = Some v" by simp
          from "12.IH"(4) [OF mx _ False x None this "12.prems"(2) ok] mn
          have "denote ic inp ?again (drop i inp, cp) = map_option (at_pos inp) v"
            and "\<forall>y. v = Some y \<longrightarrow> fst y \<le> length inp"
            by simp_all
          with mx mn False d1 None show ?thesis
            by (simp cong del: if_weak_cong)
        next
          case (Some z)
          with "12.prems" mx mn False x d1 b1 show ?thesis by auto
        qed
      next
        case True
        from "12.prems" mx mn True obtain x where x: "run n ic inp ?again i cp = Some x"
          by (auto split: option.splits)
        from "12.IH"(5) [OF mx _ _ x "12.prems"(2) ok] mn True
        have d1: "denote ic inp ?again (drop i inp, cp) = map_option (at_pos inp) x"
          and b1: "\<forall>y. x = Some y \<longrightarrow> fst y \<le> length inp"
          by simp_all
        show ?thesis
        proof (cases x)
          case None
          with "12.prems" mx mn True x have "run n ic inp k i cp = Some v" by simp
          from "12.IH"(6) [OF mx _ _ x None this "12.prems"(2) okk] mn True
          have "denote ic inp k (drop i inp, cp) = map_option (at_pos inp) v"
            and "\<forall>y. v = Some y \<longrightarrow> fst y \<le> length inp"
            by simp_all
          with mx mn True d1 None show ?thesis
            by (simp cong del: if_weak_cong)
        next
          case (Some z)
          with "12.prems" mx mn True x d1 b1 show ?thesis
            by (auto cong del: if_weak_cong)
        qed
      qed
    qed
  qed
next
  case (13 n ic inp i0 k i cp)
  have "(length inp - i = length inp - i0) = (i = i0)"
    using "13.prems"(2,3) by auto
  with "13.prems" "13.IH" show ?case
    by (auto split: if_splits)
qed (auto simp: at_pos_def split: if_splits)

lemma exec_at_sound:
  "exec_at n r ic inp i m = Some v \<Longrightarrow> m = Suc (length inp - i) \<Longrightarrow> i \<le> length inp \<Longrightarrow>
     exec r ic (drop i inp) = v"
proof (induction m arbitrary: i)
  case 0
  then show ?case by simp
next
  case (Suc m)
  from Suc.prems(1) obtain x where x: "run n ic inp [FR r] i Map.empty = Some x"
    by (auto split: option.splits)
  from run_sound [OF x Suc.prems(3)]
  have d: "re_m r ic (drop i inp, Map.empty) Some = map_option (at_pos inp) x"
    and b: "\<forall>y. x = Some y \<longrightarrow> fst y \<le> length inp"
    by simp_all
  show ?case
  proof (cases "i < length inp")
    case True
    then have dr: "drop i inp = inp ! i # drop (Suc i) inp"
      by (simp add: Cons_nth_drop_Suc)
    show ?thesis
    proof (cases x)
      case None
      with Suc.prems x have e: "exec_at n r ic inp (Suc i) m = Some v" by simp
      from Suc.prems(2) True have "m = Suc (length inp - Suc i)" by arith
      from Suc.IH [OF e this] True have "exec r ic (drop (Suc i) inp) = v" by simp
      with d None dr show ?thesis by simp
    next
      case (Some z)
      with b have z: "fst z \<le> length inp" by simp
      from Some Suc.prems x have v: "v = Some (substr inp i (fst z), snd z)" by simp
      have "length inp - i - (length inp - fst z) = fst z - i" using z True by arith
      with d Some dr v True show ?thesis
        by (simp add: at_pos_def substr_def del: drop_Suc_Cons)
    qed
  next
    case False
    with Suc.prems have i: "i = length inp" and m: "m = 0" by simp_all
    show ?thesis
    proof (cases x)
      case None
      with Suc.prems x d i m show ?thesis by simp
    next
      case (Some z)
      with b have z: "fst z \<le> length inp" by simp
      from Some Suc.prems x have v: "v = Some (substr inp i (fst z), snd z)" by simp
      with d Some i z show ?thesis by (simp add: at_pos_def substr_def)
    qed
  qed
qed

lemma exec_by_run:
  assumes a: "exec_at n r ic inp 0 (Suc (length inp)) = Some v"
  shows "exec r ic inp = v"
proof -
  have "exec r ic (drop 0 inp) = v"
    by (rule exec_at_sound [OF a]) simp_all
  then show ?thesis by (simp only: drop_0)
qed

text \<open>The same equations, for budgets, positions and bounds written as numerals.\<close>

lemma run_step1:
  "run n ic inp [] i cp = (if n = 0 then None else Some (Some (i, cp)))"
  by (cases n) simp_all


lemma run_step2:
  "run n ic inp (FR (Atom a) # k) i cp =
     (if n = 0 then None
      else if i < length inp then
        (if atom_match ic a (inp ! i) then run (n - 1) ic inp k (i + 1) cp else Some None)
      else Some None)"
  by (cases n) simp_all


lemma run_step3:
  "run n ic inp (FR Eps # k) i cp = (if n = 0 then None else run (n - 1) ic inp k i cp)"
  "run n ic inp (FR AtEnd # k) i cp =
     (if n = 0 then None else if length inp \<le> i then run (n - 1) ic inp k i cp else Some None)"
  "run n ic inp (FR (Cat r1 r2) # k) i cp =
     (if n = 0 then None else run (n - 1) ic inp (FR r1 # FR r2 # k) i cp)"
  by (cases n, simp_all)+


lemma run_step4:
  "run n ic inp (FR (Alt r1 r2) # k) i cp =
     (if n = 0 then None
      else (case run (n - 1) ic inp (FR r1 # k) i cp of
              None \<Rightarrow> None
            | Some None \<Rightarrow> run (n - 1) ic inp (FR r2 # k) i cp
            | Some (Some z) \<Rightarrow> Some (Some z)))"
  by (cases n) (simp_all cong: option.case_cong)


lemma run_step5:
  "run n ic inp (FR (Cap j r) # k) i cp =
     (if n = 0 then None else run (n - 1) ic inp (FR r # FClose j i # k) i cp)"
  "run n ic inp (FR (Rep mn mx g r) # k) i cp =
     (if n = 0 then None
      else run (n - 1) ic inp (FRep (length inp - i + mn + 1) mn mx g r # k) i cp)"
  "run n ic inp (FClose j i0 # k) i cp =
     (if n = 0 then None else run (n - 1) ic inp k i (cp(j \<mapsto> substr inp i0 i)))"
  "run n ic inp (FProg i0 # k) i cp =
     (if n = 0 then None else if i = i0 then Some None else run (n - 1) ic inp k i cp)"
  by (cases n, simp_all)+


lemma run_step6:
  "run n ic inp (FRep f mn mx g r # k) i cp =
     (if n = 0 then None
      else if f = 0 then Some None
      else if mx = Some 0 then run (n - 1) ic inp k i cp
      else if mn \<noteq> 0 then
        run (n - 1) ic inp (FR r # FRep (f - 1) (mn - 1) (dec_max mx) g r # k) i cp
      else if \<not> g then
        (case run (n - 1) ic inp k i cp of
           None \<Rightarrow> None
         | Some None \<Rightarrow>
             run (n - 1) ic inp (FR r # FProg i # FRep (f - 1) 0 (dec_max mx) g r # k) i cp
         | Some (Some z) \<Rightarrow> Some (Some z))
      else
        (case run (n - 1) ic inp (FR r # FProg i # FRep (f - 1) 0 (dec_max mx) g r # k) i cp of
           None \<Rightarrow> None
         | Some None \<Rightarrow> run (n - 1) ic inp k i cp
         | Some (Some z) \<Rightarrow> Some (Some z)))"
  by (cases n; cases f) (simp_all cong: option.case_cong)


lemmas run_step = run_step1 run_step2 run_step3 run_step4 run_step5 run_step6

lemma exec_at_step:
  "exec_at n r ic inp i m =
     (if m = 0 then Some None
      else (case run n ic inp [FR r] i Map.empty of
              None \<Rightarrow> None
            | Some None \<Rightarrow> exec_at n r ic inp (i + 1) (m - 1)
            | Some (Some z) \<Rightarrow> Some (Some (substr inp i (fst z), snd z))))"
  by (cases m) (simp_all cong: option.case_cong)

lemma exec_by_run_numeral:
  "exec_at n r ic inp 0 (length inp + 1) = Some v \<Longrightarrow> exec r ic inp = v"
  by (rule exec_by_run) simp

lemma dec_max_eval: "dec_max None = None" "dec_max (Some k) = Some (k - 1)"
  by (simp_all add: dec_max_def)

text \<open>Character codes and case conversion of the characters that occur in the sample
  texts.\<close>

lemma charCode_table:
  "charCode CHR ''a'' = 97"
  "charCode CHR ''b'' = 98"
  "charCode CHR ''c'' = 99"
  "charCode CHR ''d'' = 100"
  "charCode CHR ''e'' = 101"
  "charCode CHR ''f'' = 102"
  "charCode CHR ''g'' = 103"
  "charCode CHR ''h'' = 104"
  "charCode CHR ''i'' = 105"
  "charCode CHR ''j'' = 106"
  "charCode CHR ''k'' = 107"
  "charCode CHR ''l'' = 108"
  "charCode CHR ''m'' = 109"
  "charCode CHR ''n'' = 110"
  "charCode CHR ''o'' = 111"
  "charCode CHR ''p'' = 112"
  "charCode CHR ''q'' = 113"
  "charCode CHR ''r'' = 114"
  "charCode CHR ''s'' = 115"
  "charCode CHR ''t'' = 116"
  "charCode CHR ''u'' = 117"
  "charCode CHR ''v'' = 118"
  "charCode CHR ''w'' = 119"
  "charCode CHR ''x'' = 120"
  "charCode CHR ''y'' = 121"
  "charCode CHR ''z'' = 122"
  "charCode CHR ''A'' = 65"
  "charCode CHR ''B'' = 66"
  "charCode CHR ''C'' = 67"
  "charCode CHR ''D'' = 68"
  "charCode CHR ''E'' = 69"
  "charCode CHR ''F'' = 70"
  "charCode CHR ''G'' = 71"
  "charCode CHR ''H'' = 72"
  "charCode CHR ''I'' = 73"
  "charCode CHR ''J'' = 74"
  "charCode CHR ''K'' = 75"
  "charCode CHR ''L'' = 76"
  "charCode CHR ''M'' = 77"
  "charCode CHR ''N'' = 78"
  "charCode CHR ''O'' = 79"
  "charCode CHR ''P'' = 80"
  "charCode CHR ''Q'' = 81"
  "charCode CHR ''R'' = 82"
  "charCode CHR ''S'' = 83"
  "charCode CHR ''T'' = 84"
  "charCode CHR ''U'' = 85"
  "charCode CHR ''V'' = 86"
  "charCode CHR ''W'' = 87"
  "charCode CHR ''X'' = 88"
  "charCode CHR ''Y'' = 89"
  "charCode CHR ''Z'' = 90"
  "charCode CHR ''0'' = 48"
  "charCode CHR ''1'' = 49"
  "charCode CHR ''2'' = 50"
  "charCode CHR ''3'' = 51"
  "charCode CHR ''4'' = 52"
  "charCode CHR ''5'' = 53"
  "charCode CHR ''6'' = 54"
  "charCode CHR ''7'' = 55"
  "charCode CHR ''8'' = 56"
  "charCode CHR ''9'' = 57"
  "charCode CHR '' '' = 32"
  "charCode CHR ''.'' = 46"
  "charCode CHR '','' = 44"
  "charCode CHR ''-'' = 45"
  "charCode CHR '':'' = 58"
  "charCode CHR ''@'' = 64"
  "charCode CHR ''_'' = 95"
  "charCode CHR ''/'' = 47"
  "charCode CHR ''*'' = 42"
  "charCode CHR ''('' = 40"
  "charCode CHR '')'' = 41"
  by (simp_all add: charCode_def)

lemma toUpperChar_table:
  "toUpperChar CHR ''a'' = CHR ''A''"
  "toUpperChar CHR ''b'' = CHR ''B''"
  "toUpperChar CHR ''c'' = CHR ''C''"
  "toUpperChar CHR ''d'' = CHR ''D''"
  "toUpperChar CHR ''e'' = CHR ''E''"
  "toUpperChar CHR ''f'' = CHR ''F''"
  "toUpperChar CHR ''g'' = CHR ''G''"
  "toUpperChar CHR ''h'' = CHR ''H''"
  "toUpperChar CHR ''i'' = CHR ''I''"
  "toUpperChar CHR ''j'' = CHR ''J''"
  "toUpperChar CHR ''k'' = CHR ''K''"
  "toUpperChar CHR ''l'' = CHR ''L''"
  "toUpperChar CHR ''m'' = CHR ''M''"
  "toUpperChar CHR ''n'' = CHR ''N''"
  "toUpperChar CHR ''o'' = CHR ''O''"
  "toUpperChar CHR ''p'' = CHR ''P''"
  "toUpperChar CHR ''q'' = CHR ''Q''"
  "toUpperChar CHR ''r'' = CHR ''R''"
  "toUpperChar CHR ''s'' = CHR ''S''"
  "toUpperChar CHR ''t'' = CHR ''T''"
  "toUpperChar CHR ''u'' = CHR ''U''"
  "toUpperChar CHR ''v'' = CHR ''V''"
  "toUpperChar CHR ''w'' = CHR ''W''"
  "toUpperChar CHR ''x'' = CHR ''X''"
  "toUpperChar CHR ''y'' = CHR ''Y''"
  "toUpperChar CHR ''z'' = CHR ''Z''"
  "toUpperChar CHR ''A'' = CHR ''A''"
  "toUpperChar CHR ''B'' = CHR ''B''"
  "toUpperChar CHR ''C'' = CHR ''C''"
  "toUpperChar CHR ''D'' = CHR ''D''"
  "toUpperChar CHR ''E'' = CHR ''E''"
  "toUpperChar CHR ''F'' = CHR ''F''"
  "toUpperChar CHR ''G'' = CHR ''G''"
  "toUpperChar CHR ''H'' = CHR ''H''"
  "toUpperChar CHR ''I'' = CHR ''I''"
  "toUpperChar CHR ''J'' = CHR ''J''"
  "toUpperChar CHR ''K'' = CHR ''K''"
  "toUpperChar CHR ''L'' = CHR ''L''"
  "toUpperChar CHR ''M'' = CHR ''M''"
  "toUpperChar CHR ''N'' = CHR ''N''"
  "toUpperChar CHR ''O'' = CHR ''O''"
  "toUpperChar CHR ''P'' = CHR ''P''"
  "toUpperChar CHR ''Q'' = CHR ''Q''"
  "toUpperChar CHR ''R'' = CHR ''R''"
  "toUpperChar CHR ''S'' = CHR ''S''"
  "toUpperChar CHR ''T'' = CHR ''T''"
  "toUpperChar CHR ''U'' = CHR ''U''"
  "toUpperChar CHR ''V'' = CHR ''V''"
  "toUpperChar CHR ''W'' = CHR ''W''"
  "toUpperChar CHR ''X'' = CHR ''X''"
  "toUpperChar CHR ''Y'' = CHR ''Y''"
  "toUpperChar CHR ''Z'' = CHR ''Z''"
  "toUpperChar CHR ''0'' = CHR ''0''"
  "toUpperChar CHR ''1'' = CHR ''1''"
  "toUpperChar CHR ''2'' = CHR ''2''"
  "toUpperChar CHR ''3'' = CHR ''3''"
  "toUpperChar CHR ''4'' = CHR ''4''"
  "toUpperChar CHR ''5'' = CHR ''5''"
  "toUpperChar CHR ''6'' = CHR ''6''"
  "toUpperChar CHR ''7'' = CHR ''7''"
  "toUpperChar CHR ''8'' = CHR ''8''"
  "toUpperChar CHR ''9'' = CHR ''9''"
  "toUpperChar CHR '' '' = CHR '' ''"
  "toUpperChar CHR ''.'' = CHR ''.''"
  "toUpperChar CHR '','' = CHR '',''"
  "toUpperChar CHR ''-'' = CHR ''-''"
  "toUpperChar CHR '':'' = CHR '':''"
  "toUpperChar CHR ''@'' = CHR ''@''"
  "toUpperChar CHR ''_'' = CHR ''_''"
  "toUpperChar CHR ''/'' = CHR ''/''"
  "toUpperChar CHR ''*'' = CHR ''*''"
  "toUpperChar CHR ''('' = CHR ''(''"
  "toUpperChar CHR '')'' = CHR '')''"
  by code_simp+

lemma toLowerChar_table:
  "toLowerChar CHR ''a'' = CHR ''a''"
  "toLowerChar CHR ''b'' = CHR ''b''"
  "toLowerChar CHR ''c'' = CHR ''c''"
  "toLowerChar CHR ''d'' = CHR ''d''"
  "toLowerChar CHR ''e'' = CHR ''e''"
  "toLowerChar CHR ''f'' = CHR ''f''"
  "toLowerChar CHR ''g'' = CHR ''g''"
  "toLowerChar CHR ''h'' = CHR ''h''"
  "toLowerChar CHR ''i'' = CHR ''i''"
  "toLowerChar CHR ''j'' = CHR ''j''"
  "toLowerChar CHR ''k'' = CHR ''k''"
  "toLowerChar CHR ''l'' = CHR ''l''"
  "toLowerChar CHR ''m'' = CHR ''m''"
  "toLowerChar CHR ''n'' = CHR ''n''"
  "toLowerChar CHR ''o'' = CHR ''o''"
  "toLowerChar CHR ''p'' = CHR ''p''"
  "toLowerChar CHR ''q'' = CHR ''q''"
  "toLowerChar CHR ''r'' = CHR ''r''"
  "toLowerChar CHR ''s'' = CHR ''s''"
  "toLowerChar CHR ''t'' = CHR ''t''"
  "toLowerChar CHR ''u'' = CHR ''u''"
  "toLowerChar CHR ''v'' = CHR ''v''"
  "toLowerChar CHR ''w'' = CHR ''w''"
  "toLowerChar CHR ''x'' = CHR ''x''"
  "toLowerChar CHR ''y'' = CHR ''y''"
  "toLowerChar CHR ''z'' = CHR ''z''"
  "toLowerChar CHR ''A'' = CHR ''a''"
  "toLowerChar CHR ''B'' = CHR ''b''"
  "toLowerChar CHR ''C'' = CHR ''c''"
  "toLowerChar CHR ''D'' = CHR ''d''"
  "toLowerChar CHR ''E'' = CHR ''e''"
  "toLowerChar CHR ''F'' = CHR ''f''"
  "toLowerChar CHR ''G'' = CHR ''g''"
  "toLowerChar CHR ''H'' = CHR ''h''"
  "toLowerChar CHR ''I'' = CHR ''i''"
  "toLowerChar CHR ''J'' = CHR ''j''"
  "toLowerChar CHR ''K'' = CHR ''k''"
  "toLowerChar CHR ''L'' = CHR ''l''"
  "toLowerChar CHR ''M'' = CHR ''m''"
  "toLowerChar CHR ''N'' = CHR ''n''"
  "toLowerChar CHR ''O'' = CHR ''o''"
  "toLowerChar CHR ''P'' = CHR ''p''"
  "toLowerChar CHR ''Q'' = CHR ''q''"
  "toLowerChar CHR ''R'' = CHR ''r''"
  "toLowerChar CHR ''S'' = CHR ''s''"
  "toLowerChar CHR ''T'' = CHR ''t''"
  "toLowerChar CHR ''U'' = CHR ''u''"
  "toLowerChar CHR ''V'' = CHR ''v''"
  "toLowerChar CHR ''W'' = CHR ''w''"
  "toLowerChar CHR ''X'' = CHR ''x''"
  "toLowerChar CHR ''Y'' = CHR ''y''"
  "toLowerChar CHR ''Z'' = CHR ''z''"
  "toLowerChar CHR ''0'' = CHR ''0''"
  "toLowerChar CHR ''1'' = CHR ''1''"
  "toLowerChar CHR ''2'' = CHR ''2''"
  "toLowerChar CHR ''3'' = CHR ''3''"
  "toLowerChar CHR ''4'' = CHR ''4''"
  "toLowerChar CHR ''5'' = CHR ''5''"
  "toLowerChar CHR ''6'' = CHR ''6''"
  "toLowerChar CHR ''7'' = CHR ''7''"
  "toLowerChar CHR ''8'' = CHR ''8''"
  "toLowerChar CHR ''9'' = CHR ''9''"
  "toLowerChar CHR '' '' = CHR '' ''"
  "toLowerChar CHR ''.'' = CHR ''.''"
  "toLowerChar CHR '','' = CHR '',''"
  "toLowerChar CHR ''-'' = CHR ''-''"
  "toLowerChar CHR '':'' = CHR '':''"
  "toLowerChar CHR ''@'' = CHR ''@''"
  "toLowerChar CHR ''_'' = CHR ''_''"
  "toLowerChar CHR ''/'' = CHR ''/''"
  "toLowerChar CHR ''*'' = CHR ''*''"
  "toLowerChar CHR ''('' = CHR ''(''"
  "toLowerChar CHR '')'' = CHR '')''"
  by code_simp+

lemmas char_evals = charCode_table toUpperChar_table toLowerChar_table
  isDigit_def isUpperAZ_def isLowerAZ_def isSpace_def isWordChar_def item_match_def

lemmas pat_defs = PATTERNS_amount_def PATTERNS_type_def PATTERNS_account_def PATTERNS_date_def
  PATTERNS_time_def PATTERNS_method_def PATTERNS_referenceNumber_def PATTERNS_upiMerchant_def
  PATTERNS_cardMerchant_def PATTERNS_depositLocation_def PATTERNS_balance_def
  re_cls_def re_chr_def re_opt_def re_star_def re_plus_def re_plus_lazy_def re_times_def
  re_digit_def re_space_def

lemmas run_evals = run_step exec_at_step dec_max_eval

declare run.simps [simp del] exec_at.simps [simp del] exec.simps [simp del]

lemmas step_defs = set_amount_def set_type_def set_account_def set_dateTime_def set_method_def
  set_referenceNumber_def set_description_def set_availableBalance_def bind_thrown_def deref_def
  match_group_def text_or_empty_def

text \<open>A natural number below \<open>2 ^ 53\<close> is a double: converting its decimal text is exact.\<close>

lemma round_half_even_of_int: "round_half_even (of_int z) = z"
  by (simp add: round_half_even_def)

lemma ilog2_le: "ilog2 a b \<le> int (floorlog 2 a) - int (floorlog 2 b)"
  by (simp add: ilog2_def Let_def)

lemma to_binary64_nat:
  assumes n: "n < 2 ^ 53"
  shows "to_binary64 n 1 = Num (of_nat n)"
proof (cases "n = 0")
  case True
  then show ?thesis by (simp add: to_binary64_def)
next
  case False
  define e where "e = max (ilog2 n 1) (- 1022)"
  have f1: "floorlog 2 (1::nat) = 1"
    by (simp add: compute_floorlog)
  have "floorlog 2 n \<le> 53"
    using n by (intro floorlog_leI) simp_all
  with ilog2_le [of n 1] f1 have e: "e \<le> 52" "- 1022 \<le> e"
    by (simp_all add: e_def)
  define k where "k = nat (52 - e)"
  have q: "(2::rat) powi (e - 52) = 1 / 2 ^ k"
    using e by (simp add: power_int_def k_def field_simps)
  have "of_nat n / of_nat 1 / ((2::rat) powi (e - 52)) = of_int (int (n * 2 ^ k))"
    by (simp add: q)
  then have r: "round_half_even (of_nat n / of_nat 1 / ((2::rat) powi (e - 52))) = int (n * 2 ^ k)"
    by (simp only: round_half_even_of_int)
  have v: "of_int (int (n * 2 ^ k)) * ((2::rat) powi (e - 52)) = of_nat n"
    by (simp add: q)
  have "(of_nat n :: rat) < of_nat (2 ^ 53)"
    using n by (simp only: of_nat_less_iff)
  also have "\<dots> \<le> 2 ^ 1024" by simp
  finally have b: "\<not> (2::rat) ^ 1024 \<le> of_nat n" by simp
  show ?thesis
    using False b unfolding to_binary64_def e_def [symmetric] Let_def r v by simp
qed

end
